theory Spec2Isabelle
  imports Main "HOL-Library.AList"
begin

section \<open>The etcd lifecycle manager of planet (tool/planet/etcd.go)\<close>

text \<open>
  The Go functions of \<^verbatim>\<open>tool/planet/etcd.go\<close> are embedded as HOL functions over an
  explicit \<open>world\<close>: the file tree, the node environment, the service manager, the log
  and the commands that were run.  Go strings are byte strings (\<open>string\<close>).  Every
  \<^verbatim>\<open>return err\<close> of the source is a branch that returns \<open>Inl\<close>.
\<close>

subsection \<open>Constants of the package\<close>

text \<open>
  The constants are declared in a file of the package that is not part of the sources at
  hand; every function takes them as the parameter \<open>k\<close>.
\<close>

record config =
  EnvEtcdVersion :: string
  EnvEtcdPrevVersion :: string
  EnvStorageBackend :: string
  AssumeEtcdVersion :: string
  DefaultEtcdStoreBase :: string
  DefaultPlanetReleaseFile :: string
  DefaultEtcdCurrentVersionFile :: string
  EnvEtcdProxy :: string
  EtcdProxyOn :: string
  EtcdProxyOff :: string
  EnvEtcdMemberName :: string
  EnvEtcdInitialCluster :: string
  EnvEtcdInitialClusterState :: string
  ETCDServiceName :: string
  ETCDUpgradeServiceName :: string
  APIServerServiceName :: string
  PlanetAgentServiceName :: string
  ETCDProxyDir :: string

subsection \<open>Errors\<close>

datatype errno = ENOENT | ENOTDIR | EISDIR | EEXIST | ENOTEMPTY | ELOOP | EIO

datatype ctx_error = DeadlineExceeded | Canceled

text \<open>An error made from a format string carries the format and its operands.\<close>

datatype error =
    NotFound
  | AlreadyExists
  | BadParameter string "string list"
  | SystemError errno
  | CommandFailed string "string list"
  | ContextError ctx_error
  | ExternalError string

text \<open>
  \<^verbatim>\<open>trace.ConvertSystemError\<close>: an error for which \<^verbatim>\<open>os.IsNotExist\<close> holds becomes NotFound,
  one for which \<^verbatim>\<open>os.IsExist\<close> holds becomes AlreadyExists.  The source only ever asks
  \<^verbatim>\<open>trace.IsNotFound\<close>, so the other system errors are kept as they are.
  \<^verbatim>\<open>trace.Wrap\<close> keeps the kind of an error and is the identity here.
\<close>

fun ConvertSystemError :: "errno \<Rightarrow> error" where
  "ConvertSystemError ENOENT = NotFound"
| "ConvertSystemError EEXIST = AlreadyExists"
| "ConvertSystemError e = SystemError e"

fun IsNotFound :: "error \<Rightarrow> bool" where
  "IsNotFound NotFound = True"
| "IsNotFound _ = False"

subsection \<open>Paths: \<^verbatim>\<open>path.Clean\<close>, \<^verbatim>\<open>path.Join\<close>, \<^verbatim>\<open>filepath.Dir\<close>\<close>

definition LF :: char where "LF = CHR 0x0A"
definition CR :: char where "CR = CHR 0x0D"

text \<open>\<open>split_on c s\<close> are the pieces of \<open>s\<close> between the occurrences of \<open>c\<close> (at least one piece).\<close>

primrec split_from :: "char \<Rightarrow> string \<Rightarrow> string \<Rightarrow> string list" where
  "split_from c acc [] = [acc]"
| "split_from c acc (x # xs) =
     (if x = c then acc # split_from c [] xs else split_from c (acc @ [x]) xs)"

definition split_on :: "char \<Rightarrow> string \<Rightarrow> string list" where
  "split_on c s = split_from c [] s"

text \<open>
  The elements of a cleaned path, kept as a stack with the last element first: empty
  elements and \<open>.\<close> are dropped, \<open>..\<close> removes the element before it, is dropped at the
  root, and is kept at the start of a relative path.
\<close>

fun clean_elems :: "bool \<Rightarrow> string list \<Rightarrow> string list \<Rightarrow> string list" where
  "clean_elems rooted stack [] = stack"
| "clean_elems rooted stack (e # es) =
     (if e = [] \<or> e = ''.'' then clean_elems rooted stack es
      else if e = ''..'' then
        (case stack of
           [] \<Rightarrow> if rooted then clean_elems rooted [] es else clean_elems rooted [''..''] es
         | t # ts \<Rightarrow> if t = ''..'' then clean_elems rooted (''..'' # t # ts) es
                     else clean_elems rooted ts es)
      else clean_elems rooted (e # stack) es)"

fun join_slash :: "string list \<Rightarrow> string" where
  "join_slash [] = []"
| "join_slash [e] = e"
| "join_slash (e # es) = e @ ''/'' @ join_slash es"

definition path_Clean :: "string \<Rightarrow> string" where
  "path_Clean p =
     (if p = [] then ''.''
      else let rooted = (hd p = CHR ''/'');
               body = join_slash (rev (clean_elems rooted [] (split_on CHR ''/'' p)))
           in if rooted then CHR ''/'' # body
              else if body = [] then ''.'' else body)"

text \<open>\<^verbatim>\<open>path.Join\<close> of two elements: empty elements are ignored, the result is cleaned.\<close>

definition path_Join :: "string \<Rightarrow> string \<Rightarrow> string" where
  "path_Join a b =
     (if a = [] \<and> b = [] then []
      else if a = [] then path_Clean b
      else if b = [] then path_Clean a
      else path_Clean (a @ ''/'' @ b))"

text \<open>\<^verbatim>\<open>filepath.Dir\<close>: everything up to and including the last slash, cleaned.\<close>

definition filepath_Dir :: "string \<Rightarrow> string" where
  "filepath_Dir p = path_Clean (rev (dropWhile (\<lambda>c. c \<noteq> CHR ''/'') (rev p)))"

text \<open>\<open>is_under p q\<close>: \<open>q\<close> is \<open>p\<close> itself or a path below the directory \<open>p\<close>.\<close>

definition is_under :: "string \<Rightarrow> string \<Rightarrow> bool" where
  "is_under p q \<longleftrightarrow> q = p \<or> take (length p + 1) q = p @ ''/''"

subsection \<open>\<^verbatim>\<open>bufio.Scanner\<close> with \<^verbatim>\<open>bufio.ScanLines\<close>\<close>

definition MaxScanTokenSize :: nat where
  "MaxScanTokenSize = 64 * 1024"

text \<open>
  The raw lines of the input: the pieces that end in a line feed, and the rest of the
  input after the last line feed when it is not empty.
\<close>

primrec raw_lines :: "string \<Rightarrow> string \<Rightarrow> string list" where
  "raw_lines acc [] = (if acc = [] then [] else [acc])"
| "raw_lines acc (c # cs) =
     (if c = LF then acc # raw_lines [] cs else raw_lines (acc @ [c]) cs)"

definition dropCR :: "string \<Rightarrow> string" where
  "dropCR l = (if l \<noteq> [] \<and> last l = CR then butlast l else l)"

text \<open>
  \<^verbatim>\<open>for scanner.Scan() { line := scanner.Text() ... }\<close>: the lines the loop sees.  A line
  that does not fit the scanner's buffer (\<open>MaxScanTokenSize\<close> bytes, line feed included)
  makes \<^verbatim>\<open>Scan\<close> return false; the source does not look at \<^verbatim>\<open>scanner.Err()\<close>, so the
  loop just ends there.  One trailing carriage return is dropped from every line.
\<close>

definition scan_lines :: "string \<Rightarrow> string list" where
  "scan_lines content =
     map dropCR (takeWhile (\<lambda>l. length l < MaxScanTokenSize) (raw_lines [] content))"

subsection \<open>The world\<close>

datatype node = File string | Dir | Symlink string

datatype syscall =
    SysOpen string
  | SysStat string
  | SysLstat string
  | SysMkdir string
  | SysCreate string
  | SysWrite string string
  | SysRemove string
  | SysRemoveAll string
  | SysSymlink string string
  | SysChown string

datatype log_arg = S string | E error | M "(string \<times> string) list"

datatype log_entry =
    Info "log_arg list"
  | Infof string "log_arg list"
  | Warn "log_arg list"
  | Warnf string "log_arg list"

text \<open>One wake-up of the \<^verbatim>\<open>select\<close> in \<open>waitForEtcdStopped\<close>: the context is done, or the
  ticker fired, and then what \<^verbatim>\<open>ps.Processes()\<close> returns: an error, or the executable
  names of the processes.\<close>

datatype wakeup = CtxDone ctx_error | Tick "error + string list"

text \<open>
  The disk:
  \<^item> \<open>fs\<close>: the file tree, path to node.  A node is not required to have its parent in
    the tree; paths are looked up as they are written.
  \<^item> \<open>io_fault\<close>: the system calls that fail for a reason the tree does not show
    (permissions, a full disk, an I/O error); they fail with \<open>EIO\<close>.
\<close>

record disk =
  fs :: "(string \<times> node) list"
  io_fault :: "syscall \<Rightarrow> bool"

text \<open>
  The world:
  \<^item> \<open>disk\<close>: the disk.
  \<^item> \<open>node_env\<close>, \<open>env_read_fault\<close>, \<open>env_write_fault\<close>, \<open>env_writes\<close>: the node
    environment (see \<open>ReadEnvironment\<close>).
  \<^item> \<open>dbus_fault\<close>, \<open>list_units\<close>: the service manager seen over D-Bus: whether
    \<^verbatim>\<open>dbus.New()\<close> fails, and what \<^verbatim>\<open>ListUnitsByNames([service])\<close> returns, as the
    \<^verbatim>\<open>ActiveState\<close> of every unit of the answer.
  \<^item> \<open>exec_result\<close>: combined output of a command and whether it failed;
    \<open>commands\<close>: the commands run so far, latest last.
  \<^item> \<open>logs\<close>: the log, latest last.
  \<^item> \<open>wakeups\<close>: the wake-ups to come of the process watcher.
\<close>

record world =
  disk :: disk
  node_env :: "string \<rightharpoonup> string"
  env_read_fault :: "error option"
  env_write_fault :: "error option"
  env_writes :: "(string \<rightharpoonup> string) list"
  dbus_fault :: "error option"
  list_units :: "string \<Rightarrow> error + string list"
  exec_result :: "string list \<Rightarrow> string \<times> bool"
  commands :: "string list list"
  logs :: "log_entry list"
  wakeups :: "wakeup list"

definition log :: "log_entry \<Rightarrow> world \<Rightarrow> world" where
  "log e w = w\<lparr>logs := logs w @ [e]\<rparr>"

text \<open>A function of the disk, run in the world.\<close>

definition on_disk :: "(disk \<Rightarrow> 'a \<times> disk) \<Rightarrow> world \<Rightarrow> 'a \<times> world" where
  "on_disk f w = (case f (disk w) of (r, d) \<Rightarrow> (r, w\<lparr>disk := d\<rparr>))"

subsection \<open>System calls on the file tree\<close>

text \<open>A symbolic link as the last element of a path is followed, at most 40 times.\<close>

fun resolve :: "nat \<Rightarrow> (string \<times> node) list \<Rightarrow> string \<Rightarrow> errno + string" where
  "resolve n t p =
     (case map_of t p of
        Some (Symlink target) \<Rightarrow> (case n of 0 \<Rightarrow> Inl ELOOP | Suc m \<Rightarrow> resolve m t target)
      | _ \<Rightarrow> Inr p)"

definition os_Lstat :: "disk \<Rightarrow> string \<Rightarrow> errno + node" where
  "os_Lstat w p =
     (if io_fault w (SysLstat p) then Inl EIO
      else case map_of (fs w) p of None \<Rightarrow> Inl ENOENT | Some n \<Rightarrow> Inr n)"

definition os_Stat :: "disk \<Rightarrow> string \<Rightarrow> errno + node" where
  "os_Stat w p =
     (if io_fault w (SysStat p) then Inl EIO
      else case resolve 40 (fs w) p of
             Inl e \<Rightarrow> Inl e
           | Inr q \<Rightarrow> (case map_of (fs w) q of None \<Rightarrow> Inl ENOENT | Some n \<Rightarrow> Inr n))"

text \<open>\<^verbatim>\<open>os.Open\<close> gives the path of the node that is read.\<close>

definition os_Open :: "disk \<Rightarrow> string \<Rightarrow> errno + string" where
  "os_Open w p =
     (if io_fault w (SysOpen p) then Inl EIO
      else case resolve 40 (fs w) p of
             Inl e \<Rightarrow> Inl e
           | Inr q \<Rightarrow> (case map_of (fs w) q of None \<Rightarrow> Inl ENOENT | Some n \<Rightarrow> Inr q))"

text \<open>What a reader gets from an open file: reading a directory fails at once.\<close>

definition read_all :: "disk \<Rightarrow> string \<Rightarrow> string" where
  "read_all w q = (case map_of (fs w) q of Some (File c) \<Rightarrow> c | _ \<Rightarrow> [])"

text \<open>\<^verbatim>\<open>os.Create\<close> creates or truncates the file and gives the path that is written.\<close>

definition os_Create :: "string \<Rightarrow> disk \<Rightarrow> (errno + string) \<times> disk" where
  "os_Create p w =
     (if io_fault w (SysCreate p) then (Inl EIO, w)
      else case resolve 40 (fs w) p of
             Inl e \<Rightarrow> (Inl e, w)
           | Inr q \<Rightarrow>
               if map_of (fs w) q = Some Dir then (Inl EISDIR, w)
               else (Inr q, w\<lparr>fs := AList.update q (File []) (fs w)\<rparr>))"

text \<open>\<^verbatim>\<open>fmt.Fprint(f, ...)\<close> with string operands: their concatenation is appended.\<close>

definition Fprint :: "string \<Rightarrow> string \<Rightarrow> disk \<Rightarrow> (errno + unit) \<times> disk" where
  "Fprint f s w =
     (if io_fault w (SysWrite f s) then (Inl EIO, w)
      else (Inr (), w\<lparr>fs := AList.update f (File (read_all w f @ s)) (fs w)\<rparr>))"

definition os_Mkdir :: "string \<Rightarrow> disk \<Rightarrow> (errno + unit) \<times> disk" where
  "os_Mkdir p w =
     (if io_fault w (SysMkdir p) then (Inl EIO, w)
      else if map_of (fs w) p \<noteq> None then (Inl EEXIST, w)
      else (Inr (), w\<lparr>fs := AList.update p Dir (fs w)\<rparr>))"

text \<open>The parent that \<^verbatim>\<open>os.MkdirAll\<close> creates first: the path without its trailing
  slashes, its last element and the slash before it; none when that is the root or empty.\<close>

definition mkdir_parent :: "string \<Rightarrow> string option" where
  "mkdir_parent p =
     (let r = dropWhile (\<lambda>c. c \<noteq> CHR ''/'') (dropWhile (\<lambda>c. c = CHR ''/'') (rev p))
      in if length r > 1 then Some (rev (tl r)) else None)"

function os_MkdirAll :: "string \<Rightarrow> disk \<Rightarrow> (errno + unit) \<times> disk" where
  "os_MkdirAll p w =
     (case os_Stat w p of
        Inr n \<Rightarrow> if n = Dir then (Inr (), w) else (Inl ENOTDIR, w)
      | Inl _ \<Rightarrow>
          (case (case mkdir_parent p of None \<Rightarrow> (Inr (), w) | Some d \<Rightarrow> os_MkdirAll d w) of
             (Inl e, w1) \<Rightarrow> (Inl e, w1)
           | (Inr _, w1) \<Rightarrow>
               (case os_Mkdir p w1 of
                  (Inr _, w2) \<Rightarrow> (Inr (), w2)
                | (Inl e, w2) \<Rightarrow>
                    (case os_Lstat w2 p of Inr Dir \<Rightarrow> (Inr (), w2) | _ \<Rightarrow> (Inl e, w2)))))"
  by pat_completeness auto
termination
proof (relation "measure (\<lambda>(p, w). length p)")
  show "wf (measure (\<lambda>(p, w). length p))" by simp
next
  fix p :: string and w :: disk and e :: errno and d :: string
  assume a: "mkdir_parent p = Some d"
  let ?r = "dropWhile (\<lambda>c. c \<noteq> CHR ''/'') (dropWhile (\<lambda>c. c = CHR ''/'') (rev p))"
  have "length ?r \<le> length (dropWhile (\<lambda>c. c = CHR ''/'') (rev p))"
    by (rule length_dropWhile_le)
  also have "\<dots> \<le> length (rev p)"
    by (rule length_dropWhile_le)
  finally have le: "length ?r \<le> length p" by simp
  from a have "length ?r > 1" and "d = rev (tl ?r)"
    by (auto simp: mkdir_parent_def Let_def split: if_splits)
  with le have "length d < length p" by simp
  then show "((d, w), (p, w)) \<in> measure (\<lambda>(p, w). length p)" by simp
qed

text \<open>\<^verbatim>\<open>os.RemoveAll\<close> removes the path and everything below it; a path that does not
  exist is no error.\<close>

definition os_RemoveAll :: "string \<Rightarrow> disk \<Rightarrow> (errno + unit) \<times> disk" where
  "os_RemoveAll p w =
     (if io_fault w (SysRemoveAll p) then (Inl EIO, w)
      else (Inr (), w\<lparr>fs := filter (\<lambda>(q, n). \<not> is_under p q) (fs w)\<rparr>))"

text \<open>\<^verbatim>\<open>os.Remove\<close> removes a file, a link or an empty directory.\<close>

definition os_Remove :: "string \<Rightarrow> disk \<Rightarrow> (errno + unit) \<times> disk" where
  "os_Remove p w =
     (if io_fault w (SysRemove p) then (Inl EIO, w)
      else case map_of (fs w) p of
             None \<Rightarrow> (Inl ENOENT, w)
           | Some n \<Rightarrow>
               if n = Dir \<and> list_ex (\<lambda>(q, n). q \<noteq> p \<and> is_under p q) (fs w)
               then (Inl ENOTEMPTY, w)
               else (Inr (), w\<lparr>fs := filter (\<lambda>(q, n). q \<noteq> p) (fs w)\<rparr>))"

text \<open>\<^verbatim>\<open>os.Symlink(oldname, newname)\<close>.\<close>

definition os_Symlink :: "string \<Rightarrow> string \<Rightarrow> disk \<Rightarrow> (errno + unit) \<times> disk" where
  "os_Symlink oldname newname w =
     (if io_fault w (SysSymlink oldname newname) then (Inl EIO, w)
      else if map_of (fs w) newname \<noteq> None then (Inl EEXIST, w)
      else (Inr (), w\<lparr>fs := AList.update newname (Symlink oldname) (fs w)\<rparr>))"

subsection \<open>The version record: \<open>readEtcdVersion\<close> and \<open>writeEtcdEnvironment\<close>\<close>

text \<open>The body of the scanning loop: a line with an equals sign is cut at the first one
  (\<^verbatim>\<open>strings.SplitN(line, "=", 2)\<close>), and the key selects the variable that is set.\<close>

definition scan_line :: "config \<Rightarrow> string \<times> string \<Rightarrow> string \<Rightarrow> string \<times> string" where
  "scan_line k vs line =
     (if CHR ''='' \<in> set line then
        let key = takeWhile (\<lambda>c. c \<noteq> CHR ''='') line;
            val = tl (dropWhile (\<lambda>c. c \<noteq> CHR ''='') line)
        in if key = EnvEtcdVersion k then (val, snd vs)
           else if key = EnvEtcdPrevVersion k then (fst vs, val)
           else vs
      else vs)"

definition parse_version :: "config \<Rightarrow> string \<Rightarrow> error + (string \<times> string)" where
  "parse_version k content =
     (let (currentVersion, prevVersion) = foldl (scan_line k) ([], []) (scan_lines content)
      in if currentVersion = [] then Inl (BadParameter ''unable to parse etcd version'' [])
         else Inr (currentVersion, prevVersion))"

definition readEtcdVersion :: "config \<Rightarrow> string \<Rightarrow> disk \<Rightarrow> error + (string \<times> string)" where
  "readEtcdVersion k path w =
     (case os_Open w path of
        Inl e \<Rightarrow> Inl (ConvertSystemError e)
      | Inr inFile \<Rightarrow> parse_version k (read_all w inFile))"

definition writeEtcdEnvironment ::
  "config \<Rightarrow> string \<Rightarrow> string \<Rightarrow> string \<Rightarrow> disk \<Rightarrow> (error + unit) \<times> disk" where
  "writeEtcdEnvironment k path version prevVersion w =
     (case os_MkdirAll (filepath_Dir path) w of
        (Inl e, w1) \<Rightarrow> (Inl (ConvertSystemError e), w1)
      | (Inr _, w1) \<Rightarrow>
     (case os_Create path w1 of
        (Inl e, w2) \<Rightarrow> (Inl (ConvertSystemError e), w2)
      | (Inr f, w2) \<Rightarrow>
     (case Fprint f (EnvEtcdVersion k @ ''='' @ version @ [LF]) w2 of
        (Inl e, w3) \<Rightarrow> (Inl (SystemError e), w3)
      | (Inr _, w3) \<Rightarrow>
     (case (if prevVersion \<noteq> []
            then Fprint f (EnvEtcdPrevVersion k @ ''='' @ prevVersion @ [LF]) w3
            else (Inr (), w3)) of
        (Inl e, w4) \<Rightarrow> (Inl (SystemError e), w4)
      | (Inr _, w4) \<Rightarrow>
     (let backend = (if version = AssumeEtcdVersion k then ''etcd2'' else ''etcd3'')
      in case Fprint f (EnvStorageBackend k @ ''='' @ backend @ [LF]) w4 of
           (Inl e, w5) \<Rightarrow> (Inl (SystemError e), w5)
         | (Inr _, w5) \<Rightarrow> (Inr (), w5))))))"

subsection \<open>The node environment\<close>

text \<open>
  Modelled from the spec: package \<^verbatim>\<open>lib/box\<close> (\<^verbatim>\<open>ReadEnvironment\<close>, \<^verbatim>\<open>WriteEnvironment\<close>,
  \<^verbatim>\<open>Get\<close>, \<^verbatim>\<open>Upsert\<close>) is not part of the sources at hand.  The spec calls the node
  environment a persistent key to value configuration: \<open>node_env\<close> is what the file
  \<^verbatim>\<open>ContainerEnvironmentFile\<close> holds, \<open>env_writes\<close> lists every environment written to
  it, and a key that is not set reads as the empty string.
\<close>

definition ReadEnvironment :: "world \<Rightarrow> error + (string \<rightharpoonup> string)" where
  "ReadEnvironment w = (case env_read_fault w of Some err \<Rightarrow> Inl err | None \<Rightarrow> Inr (node_env w))"

definition env_Get :: "(string \<rightharpoonup> string) \<Rightarrow> string \<Rightarrow> string" where
  "env_Get env key = (case env key of None \<Rightarrow> [] | Some v \<Rightarrow> v)"

definition env_Upsert :: "(string \<rightharpoonup> string) \<Rightarrow> string \<Rightarrow> string \<Rightarrow> (string \<rightharpoonup> string)" where
  "env_Upsert env key v = env(key \<mapsto> v)"

definition WriteEnvironment :: "(string \<rightharpoonup> string) \<Rightarrow> world \<Rightarrow> (error + unit) \<times> world" where
  "WriteEnvironment env w =
     (case env_write_fault w of
        Some err \<Rightarrow> (Inl err, w)
      | None \<Rightarrow> (Inr (), w\<lparr>node_env := env, env_writes := env_writes w @ [env]\<rparr>))"

subsection \<open>Service control\<close>

text \<open>\<^verbatim>\<open>exec.Command(argv...).CombinedOutput()\<close>: the command is recorded and its output
  and failure are the world's.  A context that is done shows as a failure here.\<close>

definition exec_Command :: "string list \<Rightarrow> world \<Rightarrow> (string \<times> bool) \<times> world" where
  "exec_Command argv w = (exec_result w argv, w\<lparr>commands := commands w @ [argv]\<rparr>)"

definition systemctl :: "string \<Rightarrow> string \<Rightarrow> world \<Rightarrow> (error + unit) \<times> world" where
  "systemctl operation service w =
     (case exec_Command [''/bin/systemctl'', ''--no-block'', operation, service] w of
        ((out, failed), w1) \<Rightarrow>
          let w2 = log (Infof ''%v %v: %v'' [S operation, S service, S out]) w1
          in if failed
             then (Inl (CommandFailed ''failed to %v %v: %v'' [operation, service, out]), w2)
             else (Inr (), w2))"

definition getServiceStatus :: "string \<Rightarrow> world \<Rightarrow> error + string" where
  "getServiceStatus service w =
     (case dbus_fault w of
        Some err \<Rightarrow> Inl err
      | None \<Rightarrow>
          (case list_units w service of
             Inl err \<Rightarrow> Inl err
           | Inr status \<Rightarrow>
               if length status \<noteq> 1
               then Inl (BadParameter
                     (''unexpected number of status results when checking service ''
                        @ [CHR 0x27] @ ''%q'' @ [CHR 0x27]) [service])
               else Inr (hd status)))"

definition tryResetService :: "string \<Rightarrow> world \<Rightarrow> world" where
  "tryResetService service w =
     (case systemctl ''restart'' service w of
        (Inl err, w1) \<Rightarrow> log (Warn [S ''error attempting to restart service'', E err]) w1
      | (Inr _, w1) \<Rightarrow> w1)"

subsection \<open>The process watcher\<close>

text \<open>
  The loop of \<open>waitForEtcdStopped\<close> over the wake-ups to come.  When they run out the loop
  is still blocked in its \<^verbatim>\<open>select\<close>: it has not returned, the value is \<open>None\<close>.
\<close>

fun wait_loop :: "wakeup list \<Rightarrow> ((error + unit) \<times> wakeup list) option" where
  "wait_loop [] = None"
| "wait_loop (CtxDone err # rest) = Some (Inl (ContextError err), rest)"
| "wait_loop (Tick (Inl err) # rest) = Some (Inl err, rest)"
| "wait_loop (Tick (Inr procs) # rest) =
     (if ''etcd'' \<in> set procs then wait_loop rest else Some (Inr (), rest))"

definition waitForEtcdStopped :: "world \<Rightarrow> ((error + unit) \<times> world) option" where
  "waitForEtcdStopped w =
     (case wait_loop (wakeups w) of
        None \<Rightarrow> None
      | Some (r, rest) \<Rightarrow> Some (r, w\<lparr>wakeups := rest\<rparr>))"

definition disableService :: "string \<Rightarrow> world \<Rightarrow> ((error + unit) \<times> world) option" where
  "disableService service w =
     (case systemctl ''mask'' service w of
        (Inl err, w1) \<Rightarrow> Some (Inl err, w1)
      | (Inr _, w1) \<Rightarrow>
          (case systemctl ''stop'' service w1 of
             (Inl err, w2) \<Rightarrow> Some (Inl err, w2)
           | (Inr _, w2) \<Rightarrow> waitForEtcdStopped w2))"

definition etcdDisable :: "config \<Rightarrow> bool \<Rightarrow> world \<Rightarrow> ((error + unit) \<times> world) option" where
  "etcdDisable k upgradeService w =
     (if upgradeService then disableService (ETCDUpgradeServiceName k) w
      else disableService (ETCDServiceName k) w)"

subsection \<open>Upgrade and rollback\<close>

definition getBaseEtcdDir :: "config \<Rightarrow> string \<Rightarrow> string" where
  "getBaseEtcdDir k version =
     (if version \<noteq> AssumeEtcdVersion k then path_Join (DefaultEtcdStoreBase k) version
      else DefaultEtcdStoreBase k)"

text \<open>The loop over the two units at the start of \<open>etcdUpgrade\<close>.\<close>

fun checkServices :: "string list \<Rightarrow> world \<Rightarrow> (error + unit) \<times> world" where
  "checkServices [] w = (Inr (), w)"
| "checkServices (service # services) w =
     (case getServiceStatus service w of
        Inl err \<Rightarrow>
          checkServices services
            (log (Warnf ''Failed to query status of service %v. Continuing upgrade. Error: %v''
                    [S service, E err]) w)
      | Inr status \<Rightarrow>
          let w1 = log (Info [S ''%v service status: %v'', S service, S status]) w
          in if status \<noteq> ''inactive'' \<and> status \<noteq> ''failed''
             then (Inl (BadParameter
                     ''%v must be disabled in order to run the upgrade. current status: %v''
                     [service, status]), w1)
             else checkServices services w1)"

text \<open>The version record as the upgrade sees it: a record that is not found counts as
  \<open>AssumeEtcdVersion\<close> with no backup.\<close>

definition currentEtcdVersion :: "config \<Rightarrow> disk \<Rightarrow> error + (string \<times> string)" where
  "currentEtcdVersion k w =
     (case readEtcdVersion k (DefaultEtcdCurrentVersionFile k) w of
        Inl err \<Rightarrow> if IsNotFound err then Inr (AssumeEtcdVersion k, []) else Inl err
      | Inr vs \<Rightarrow> Inr vs)"

text \<open>The branch \<^verbatim>\<open>if rollback { ... } else { ... }\<close> of \<open>etcdUpgrade\<close>.\<close>

definition switchVersion ::
  "config \<Rightarrow> bool \<Rightarrow> string \<Rightarrow> string \<Rightarrow> string \<Rightarrow> disk \<Rightarrow> (error + unit) \<times> disk" where
  "switchVersion k rollback desiredVersion currentVersion backupVersion w =
     (if rollback then
        (if backupVersion \<noteq> []
         then writeEtcdEnvironment k (DefaultEtcdCurrentVersionFile k) backupVersion [] w
         else (Inr (), w))
      else
        (case (if currentVersion \<noteq> desiredVersion then
                 (case writeEtcdEnvironment k (DefaultEtcdCurrentVersionFile k)
                         desiredVersion currentVersion w of
                    (Inl err, w1) \<Rightarrow> (Inl err, w1)
                  | (Inr _, w1) \<Rightarrow>
                      if backupVersion \<noteq> [] then
                        (case os_RemoveAll
                                (path_Join (getBaseEtcdDir k backupVersion) ''member'') w1 of
                           (Inl e, w2) \<Rightarrow> (Inl (ConvertSystemError e), w2)
                         | (Inr _, w2) \<Rightarrow> (Inr (), w2))
                      else (Inr (), w1))
               else (Inr (), w)) of
           (Inl err, w3) \<Rightarrow> (Inl err, w3)
         | (Inr _, w3) \<Rightarrow>
             (case os_RemoveAll (path_Join (getBaseEtcdDir k desiredVersion) ''member'') w3 of
                (Inl e, w4) \<Rightarrow>
                  if e \<noteq> ENOENT then (Inl (ConvertSystemError e), w4) else (Inr (), w4)
              | (Inr _, w4) \<Rightarrow> (Inr (), w4))))"

text \<open>The end of \<open>etcdUpgrade\<close>: the API server is restarted when it is not inactive.\<close>

definition resetAPIServer :: "config \<Rightarrow> world \<Rightarrow> (error + unit) \<times> world" where
  "resetAPIServer k w =
     (case getServiceStatus (APIServerServiceName k) w of
        Inl err \<Rightarrow> (Inl err, w)
      | Inr status \<Rightarrow>
          let w1 = (if status \<noteq> ''inactive''
                    then tryResetService (APIServerServiceName k) w else w)
          in (Inr (), log (Info [S ''Upgrade complete'']) w1))"

definition etcdUpgrade :: "config \<Rightarrow> bool \<Rightarrow> world \<Rightarrow> (error + unit) \<times> world" where
  "etcdUpgrade k rollback w0 =
     (let w = log (Info [S ''Updating etcd'']) w0
      in case ReadEnvironment w of
           Inl err \<Rightarrow> (Inl err, w)
         | Inr env \<Rightarrow>
     if env_Get env (EnvEtcdProxy k) = EtcdProxyOn k
     then (Inr (), log (Info [S ''etcd is in proxy mode, nothing to do'']) w)
     else
     (case checkServices [ETCDServiceName k, ETCDUpgradeServiceName k]
             (log (Info [S ''Checking etcd service status'']) w) of
        (Inl err, w1) \<Rightarrow> (Inl err, w1)
      | (Inr _, w1) \<Rightarrow>
     (case readEtcdVersion k (DefaultPlanetReleaseFile k) (disk w1) of
        Inl err \<Rightarrow> (Inl err, w1)
      | Inr (desiredVersion, _) \<Rightarrow>
     (let w2 = log (Info [S ''Desired etcd version: '', S desiredVersion]) w1
      in case currentEtcdVersion k (disk w2) of
           Inl err \<Rightarrow> (Inl err, w2)
         | Inr (currentVersion, backupVersion) \<Rightarrow>
     (let w3 = log (Info [S ''Backup etcd version: '', S backupVersion])
                 (log (Info [S ''Current etcd version: '', S currentVersion]) w2)
      in case on_disk (switchVersion k rollback desiredVersion currentVersion backupVersion) w3 of
           (Inl err, w4) \<Rightarrow> (Inl err, w4)
         | (Inr _, w4) \<Rightarrow> resetAPIServer k w4)))))"

subsection \<open>Initialisation\<close>

text \<open>The version that \<open>etcdInit\<close> settles on: the recorded one; without a record,
  \<open>AssumeEtcdVersion\<close>, or on a new installation the desired version, which is recorded.\<close>

definition initCurrentVersion :: "config \<Rightarrow> string \<Rightarrow> world \<Rightarrow> (error + string) \<times> world" where
  "initCurrentVersion k desiredVersion w =
     (case readEtcdVersion k (DefaultEtcdCurrentVersionFile k) (disk w) of
        Inr (currentVersion, _) \<Rightarrow> (Inr currentVersion, w)
      | Inl err \<Rightarrow>
          if \<not> IsNotFound err then (Inl err, w)
          else if os_Stat (disk w) ''/ext/etcd/member'' = Inl ENOENT then
            (let w1 = log (Info [S ''New installation detected, using etcd version: '',
                                 S desiredVersion]) w
             in case on_disk (writeEtcdEnvironment k (DefaultEtcdCurrentVersionFile k)
                                desiredVersion []) w1 of
                  (Inl err, w2) \<Rightarrow> (Inl err, w2)
                | (Inr _, w2) \<Rightarrow> (Inr desiredVersion, w2))
          else (Inr (AssumeEtcdVersion k), w))"

text \<open>The loop that links the binaries; the result of \<^verbatim>\<open>os.Remove\<close> is ignored.\<close>

fun linkBinaries :: "string \<Rightarrow> string list \<Rightarrow> disk \<Rightarrow> (error + unit) \<times> disk" where
  "linkBinaries currentVersion [] w = (Inr (), w)"
| "linkBinaries currentVersion (path # paths) w =
     (let w1 = snd (os_Remove path w)
      in case os_Symlink (path @ ''-'' @ currentVersion) path w1 of
           (Inl e, w2) \<Rightarrow> (Inl (ConvertSystemError e), w2)
         | (Inr _, w2) \<Rightarrow> linkBinaries currentVersion paths w2)"

text \<open>\<open>chownDir\<close> is a function of the package that is not part of the sources at hand:
  it is a parameter.  The tree has no owners, so it gets the directory only.\<close>

definition etcdInit ::
  "config \<Rightarrow> (string \<Rightarrow> world \<Rightarrow> (error + unit) \<times> world) \<Rightarrow> world \<Rightarrow> (error + unit) \<times> world" where
  "etcdInit k chownDir w =
     (case readEtcdVersion k (DefaultPlanetReleaseFile k) (disk w) of
        Inl err \<Rightarrow> (Inl err, w)
      | Inr (desiredVersion, _) \<Rightarrow>
     (case initCurrentVersion k desiredVersion
             (log (Info [S ''Desired etcd version: '', S desiredVersion]) w) of
        (Inl err, w1) \<Rightarrow> (Inl err, w1)
      | (Inr currentVersion, w1) \<Rightarrow>
     (case on_disk (linkBinaries currentVersion [''/usr/bin/etcd'', ''/usr/bin/etcdctl''])
             (log (Info [S ''Current etcd version: '', S currentVersion]) w1) of
        (Inl err, w2) \<Rightarrow> (Inl err, w2)
      | (Inr _, w2) \<Rightarrow>
     (let latestDir = path_Join (DefaultEtcdStoreBase k) ''latest'';
          w3 = snd (on_disk (os_Remove latestDir) w2);
          dest = getBaseEtcdDir k currentVersion
      in case (case on_disk (os_MkdirAll dest) w3 of
                 (Inl e, w4) \<Rightarrow> if e \<noteq> EEXIST then (Inl (ConvertSystemError e), w4)
                                else (Inr (), w4)
               | (Inr _, w4) \<Rightarrow> (Inr (), w4)) of
           (Inl err, w4) \<Rightarrow> (Inl err, w4)
         | (Inr _, w4) \<Rightarrow>
     (case os_Stat (disk w4) (DefaultEtcdStoreBase k) of
        Inl e \<Rightarrow> (Inl (ConvertSystemError e), w4)
      | Inr fi \<Rightarrow>
     (case chownDir dest w4 of
        (Inl err, w5) \<Rightarrow> (Inl err, w5)
      | (Inr _, w5) \<Rightarrow>
     (case on_disk (os_Symlink dest latestDir) w5 of
        (Inl e, w6) \<Rightarrow> (Inl (SystemError e), w6)
      | (Inr _, w6) \<Rightarrow> (Inr (), w6))))))))"

subsection \<open>Promotion\<close>

text \<open>
  \<open>setupEtcd\<close> is a function of the package that is not part of the sources at hand: it
  is a parameter; \<open>etcdPromote\<close> ignores what it returns.  The four keys of \<^verbatim>\<open>newEnv\<close> are
  upserted in the order of the source text; Go ranges over a map in no fixed order, and
  the node environment is a map, so the order does not show.
\<close>

definition etcdPromote ::
  "config \<Rightarrow> (world \<Rightarrow> world) \<Rightarrow> string \<Rightarrow> string \<Rightarrow> string \<Rightarrow> world \<Rightarrow> (error + unit) \<times> world" where
  "etcdPromote k setupEtcd name initialCluster initialClusterState w =
     (case ReadEnvironment w of
        Inl err \<Rightarrow> (Inl err, w)
      | Inr env \<Rightarrow>
     if env_Get env (EnvEtcdProxy k) = EtcdProxyOff k
     then (Inr (), log (Infof ''etcd is not running in proxy mode, nothing to do'' []) w)
     else
     (let newEnv = [(EnvEtcdProxy k, EtcdProxyOff k),
                    (EnvEtcdMemberName k, name),
                    (EnvEtcdInitialCluster k, initialCluster),
                    (EnvEtcdInitialClusterState k, initialClusterState)];
          w1 = log (Infof ''updating etcd environment: %v'' [M newEnv]) w;
          env1 = foldl (\<lambda>env (key, v). env_Upsert env key v) env newEnv
      in case WriteEnvironment env1 w1 of
           (Inl err, w2) \<Rightarrow> (Inl err, w2)
         | (Inr _, w2) \<Rightarrow>
     (case exec_Command [''/bin/systemctl'', ''stop'', ''etcd''] w2 of
        ((out, failed), w3) \<Rightarrow>
     (let w4 = log (Infof ''stopping etcd: %v'' [S out]) w3
      in if failed then (Inl (CommandFailed ''failed to stop etcd: %v'' [out]), w4)
         else
     (case (case on_disk (os_RemoveAll (ETCDProxyDir k))
                   (log (Infof ''removing %v'' [S (ETCDProxyDir k)]) w4) of
              (Inl e, w5) \<Rightarrow> if e \<noteq> ENOENT then (Inl (SystemError e), w5) else (Inr (), w5)
            | (Inr _, w5) \<Rightarrow> (Inr (), w5)) of
        (Inl err, w5) \<Rightarrow> (Inl err, w5)
      | (Inr _, w5) \<Rightarrow>
     (case exec_Command [''/bin/systemctl'', ''daemon-reload''] (setupEtcd w5) of
        ((out, failed), w6) \<Rightarrow>
     (let w7 = log (Infof ''systemctl daemon-reload: %v'' [S out]) w6
      in if failed
         then (Inl (CommandFailed ''failed to trigger systemctl daemon-reload: %v'' [out]), w7)
         else
     (case exec_Command [''/bin/systemctl'', ''start'', ETCDServiceName k] w7 of
        ((out, failed), w8) \<Rightarrow>
     (let w9 = log (Infof ''starting etcd: %v'' [S out]) w8
      in if failed then (Inl (CommandFailed ''failed to start etcd: %v'' [out]), w9)
         else
     (case exec_Command [''/bin/systemctl'', ''restart'', PlanetAgentServiceName k] w9 of
        ((out, failed), w10) \<Rightarrow>
     (let w11 = log (Infof ''restarting planet-agent: %v'' [S out]) w10
      in if failed then (Inl (CommandFailed ''failed to restart planet-agent: %v'' [out]), w11)
         else (Inr (), w11))))))))))))"

subsection \<open>A sample node\<close>

text \<open>Values for the constants and a node to run the functions on: version 3.3.9 is
  installed with its data, the release asks for 3.3.12, every unit is inactive.\<close>

definition sample_config :: config where
  "sample_config =
     \<lparr>EnvEtcdVersion = ''PLANET_ETCD_VERSION'',
      EnvEtcdPrevVersion = ''PLANET_ETCD_PREV_VERSION'',
      EnvStorageBackend = ''KUBE_STORAGE_BACKEND'',
      AssumeEtcdVersion = ''v2.3.8'',
      DefaultEtcdStoreBase = ''/ext/etcd'',
      DefaultPlanetReleaseFile = ''/etc/planet-release'',
      DefaultEtcdCurrentVersionFile = ''/ext/etcd/etcd-version.txt'',
      EnvEtcdProxy = ''PLANET_ETCD_PROXY'',
      EtcdProxyOn = ''on'',
      EtcdProxyOff = ''off'',
      EnvEtcdMemberName = ''PLANET_ETCD_MEMBER_NAME'',
      EnvEtcdInitialCluster = ''PLANET_ETCD_INITIAL_CLUSTER'',
      EnvEtcdInitialClusterState = ''PLANET_ETCD_INITIAL_CLUSTER_STATE'',
      ETCDServiceName = ''etcd.service'',
      ETCDUpgradeServiceName = ''etcd-upgrade.service'',
      APIServerServiceName = ''kube-apiserver.service'',
      PlanetAgentServiceName = ''planet-agent.service'',
      ETCDProxyDir = ''/ext/etcd/proxy''\<rparr>"

definition sample_world :: world where
  "sample_world =
     \<lparr>disk = \<lparr>fs = [(''/etc/planet-release'', File (''PLANET_ETCD_VERSION=3.3.12'' @ [LF])),
            (''/ext'', Dir),
            (''/ext/etcd'', Dir),
            (''/ext/etcd/etcd-version.txt'',
               File (''PLANET_ETCD_VERSION=3.3.9'' @ [LF]
                     @ ''KUBE_STORAGE_BACKEND=etcd3'' @ [LF])),
            (''/ext/etcd/3.3.9'', Dir),
            (''/ext/etcd/3.3.9/member'', Dir),
            (''/ext/etcd/3.3.9/member/wal'', File ''data'')],
               io_fault = (\<lambda>c. False)\<rparr>,
      node_env = [''PLANET_ETCD_PROXY'' \<mapsto> ''off''],
      env_read_fault = None,
      env_write_fault = None,
      env_writes = [],
      dbus_fault = None,
      list_units = (\<lambda>service. Inr [''inactive'']),
      exec_result = (\<lambda>argv. ([], False)),
      commands = [],
      logs = [],
      wakeups = []\<rparr>"

text \<open>The sample node with the upgrade unit still running.\<close>

definition busy_world :: world where
  "busy_world =
     sample_world\<lparr>list_units :=
       (\<lambda>service. if service = ''etcd-upgrade.service'' then Inr [''active'']
                  else Inr [''inactive''])\<rparr>"



text \<open>The sample node while etcd shuts down: two scans of the process table still show
  \<open>etcd\<close>, the third does not, and the deadline comes after that.\<close>

definition stopping_world :: world where
  "stopping_world =
     sample_world\<lparr>wakeups := [Tick (Inr [''systemd'', ''etcd'', ''etcd-upgrade'']),
                               Tick (Inr [''systemd'', ''etcd'']),
                               Tick (Inr [''systemd'', ''etcdctl'']),
                               CtxDone DeadlineExceeded]\<rparr>"

text \<open>A node before its first start: the release file and the store base, no version
  record, no data.\<close>

definition fresh_world :: world where
  "fresh_world =
     sample_world\<lparr>disk :=
       \<lparr>fs = [(''/etc/planet-release'', File (''PLANET_ETCD_VERSION=3.3.12'' @ [LF])),
              (''/ext'', Dir),
              (''/ext/etcd'', Dir)],
        io_fault = (\<lambda>c. False)\<rparr>\<rparr>"

text \<open>The same node on a disk where the version record cannot be created.\<close>

definition unwritable_world :: world where
  "unwritable_world =
     fresh_world\<lparr>disk := (disk fresh_world)\<lparr>io_fault :=
       (\<lambda>c. c = SysCreate ''/ext/etcd/etcd-version.txt'')\<rparr>\<rparr>"

text \<open>A \<open>chownDir\<close> for the sample node: the tree has no owners, nothing changes.\<close>

definition chown_nothing :: "string \<Rightarrow> world \<Rightarrow> (error + unit) \<times> world" where
  "chown_nothing dir w = (Inr (), w)"

subsection \<open>Notions used in the statements\<close>

text \<open>\<open>only_logged w w'\<close>: the world \<open>w'\<close> is \<open>w\<close> with more in its log and nothing else
  changed: no file, no directory, no environment, no command.\<close>

definition only_logged :: "world \<Rightarrow> world \<Rightarrow> bool" where
  "only_logged w w' \<longleftrightarrow> w' = w\<lparr>logs := logs w'\<rparr>"

text \<open>The error of \<open>etcdUpgrade\<close> for a unit that is not stopped.\<close>

definition must_be_disabled :: "string \<Rightarrow> string \<Rightarrow> error" where
  "must_be_disabled service status =
     BadParameter ''%v must be disabled in order to run the upgrade. current status: %v''
       [service, status]"

text \<open>\<open>unit_check_passes service w\<close>: the check of \<open>etcdUpgrade\<close> lets the unit pass: its
  status is \<open>inactive\<close> or \<open>failed\<close>, or the status cannot be read (the source then warns
  and continues).\<close>

definition unit_check_passes :: "string \<Rightarrow> world \<Rightarrow> bool" where
  "unit_check_passes service w =
     (case getServiceStatus service w of
        Inl err \<Rightarrow> True
      | Inr status \<Rightarrow> status = ''inactive'' \<or> status = ''failed'')"



text \<open>\<open>etcd_running e\<close>: the wake-up \<open>e\<close> is a tick at which the process table has a
  process whose executable is \<open>etcd\<close>.\<close>

definition etcd_running :: "wakeup \<Rightarrow> bool" where
  "etcd_running e = (case e of Tick (Inr procs) \<Rightarrow> ''etcd'' \<in> set procs | _ \<Rightarrow> False)"

text \<open>The command line of \<open>systemctl(ctx, operation, service)\<close>.\<close>

definition systemctl_command :: "string \<Rightarrow> string \<Rightarrow> string list" where
  "systemctl_command operation service = [''/bin/systemctl'', ''--no-block'', operation, service]"

text \<open>The record that \<open>writeEtcdEnvironment\<close> prints for a version and a previous
  version: the version line, the line of the previous version when there is one, the line
  of the storage backend.\<close>

definition version_record :: "config \<Rightarrow> string \<Rightarrow> string \<Rightarrow> string" where
  "version_record k version prevVersion =
     EnvEtcdVersion k @ ''='' @ version @ [LF]
     @ (if prevVersion \<noteq> [] then EnvEtcdPrevVersion k @ ''='' @ prevVersion @ [LF] else [])
     @ EnvStorageBackend k @ ''=''
     @ (if version = AssumeEtcdVersion k then ''etcd2'' else ''etcd3'') @ [LF]"

text \<open>The three keys of the record are distinct and have neither an equals sign nor a
  line feed.\<close>

definition key_ok :: "string \<Rightarrow> bool" where
  "key_ok key \<longleftrightarrow> CHR ''='' \<notin> set key \<and> LF \<notin> set key"

definition keys_ok :: "config \<Rightarrow> bool" where
  "keys_ok k \<longleftrightarrow>
     key_ok (EnvEtcdVersion k) \<and> key_ok (EnvEtcdPrevVersion k) \<and> key_ok (EnvStorageBackend k)
     \<and> EnvEtcdVersion k \<noteq> EnvEtcdPrevVersion k
     \<and> EnvStorageBackend k \<noteq> EnvEtcdVersion k
     \<and> EnvStorageBackend k \<noteq> EnvEtcdPrevVersion k"

text \<open>A value that the scanner gives back as it was written under \<open>key\<close>: it is not
  empty, it has no line feed, it does not end in a carriage return (the scanner drops
  one), and its line is shorter than the scanner's buffer.\<close>

definition valid_value :: "string \<Rightarrow> string \<Rightarrow> bool" where
  "valid_value key v \<longleftrightarrow>
     v \<noteq> [] \<and> LF \<notin> set v \<and> last v \<noteq> CR \<and> length (key @ ''='' @ v) < MaxScanTokenSize"

definition valid_current :: "config \<Rightarrow> string \<Rightarrow> bool" where
  "valid_current k v \<longleftrightarrow> valid_value (EnvEtcdVersion k) v"

text \<open>A previous version may be empty: then its line is not written.\<close>

definition valid_backup :: "config \<Rightarrow> string \<Rightarrow> bool" where
  "valid_backup k b \<longleftrightarrow> b = [] \<or> valid_value (EnvEtcdPrevVersion k) b"

text \<open>\<open>only_dirs_added d d'\<close>: the tree of \<open>d'\<close> is the tree of \<open>d\<close> with more
  directories, at paths where \<open>d\<close> has nothing.\<close>

definition only_dirs_added :: "disk \<Rightarrow> disk \<Rightarrow> bool" where
  "only_dirs_added d d' \<longleftrightarrow>
     io_fault d' = io_fault d
     \<and> (\<forall>q. map_of (fs d') q = map_of (fs d) q
              \<or> (map_of (fs d) q = None \<and> map_of (fs d') q = Some Dir))"

text \<open>\<open>not_link d p\<close>: the path \<open>p\<close> is not a symbolic link on the disk \<open>d\<close>.\<close>

definition not_link :: "disk \<Rightarrow> string \<Rightarrow> bool" where
  "not_link d p = (case map_of (fs d) p of Some (Symlink target) \<Rightarrow> False | _ \<Rightarrow> True)"

section \<open>Properties\<close>

subsection \<open>Logging changes the log only\<close>

lemma only_logged_refl [simp]: "only_logged w w"
  by (simp add: only_logged_def)

lemma only_logged_log [simp]: "only_logged w (log e w)"
  by (simp add: only_logged_def log_def)

lemma only_logged_trans: "only_logged w w1 \<Longrightarrow> only_logged w1 w2 \<Longrightarrow> only_logged w w2"
proof -
  assume a: "only_logged w w1" and b: "only_logged w1 w2"
  have "w2 = w1\<lparr>logs := logs w2\<rparr>" using b by (simp add: only_logged_def)
  also have "w1 = w\<lparr>logs := logs w1\<rparr>" using a by (simp add: only_logged_def)
  finally show ?thesis by (simp add: only_logged_def)
qed

lemma only_logged_fields:
  assumes "only_logged w w'"
  shows "disk w' = disk w" "node_env w' = node_env w"
    "env_read_fault w' = env_read_fault w" "env_write_fault w' = env_write_fault w"
    "env_writes w' = env_writes w" "dbus_fault w' = dbus_fault w"
    "list_units w' = list_units w" "exec_result w' = exec_result w"
    "commands w' = commands w" "wakeups w' = wakeups w"
proof -
  from assms have e: "w' = w\<lparr>logs := logs w'\<rparr>"
    by (simp add: only_logged_def)
  show "disk w' = disk w" by (subst e) simp
  show "node_env w' = node_env w" by (subst e) simp
  show "env_read_fault w' = env_read_fault w" by (subst e) simp
  show "env_write_fault w' = env_write_fault w" by (subst e) simp
  show "env_writes w' = env_writes w" by (subst e) simp
  show "dbus_fault w' = dbus_fault w" by (subst e) simp
  show "list_units w' = list_units w" by (subst e) simp
  show "exec_result w' = exec_result w" by (subst e) simp
  show "commands w' = commands w" by (subst e) simp
  show "wakeups w' = wakeups w" by (subst e) simp
qed

lemma getServiceStatus_logged:
  "only_logged w w' \<Longrightarrow> getServiceStatus s w' = getServiceStatus s w"
  by (simp add: getServiceStatus_def only_logged_fields split: option.split)

lemma ReadEnvironment_logged:
  "only_logged w w' \<Longrightarrow> ReadEnvironment w' = ReadEnvironment w"
  by (simp add: ReadEnvironment_def only_logged_fields split: option.split)

lemma checkServices_logged: "only_logged w (snd (checkServices services w))"
proof (induction services arbitrary: w)
  case Nil
  show ?case by simp
next
  case (Cons s ss)
  show ?case
  proof (cases "getServiceStatus s w")
    case (Inl err)
    then show ?thesis
      using only_logged_trans [OF only_logged_log Cons.IH] by simp
  next
    case (Inr status)
    then show ?thesis
      using only_logged_trans [OF only_logged_log Cons.IH] by (simp add: Let_def)
  qed
qed


lemma log_fields [simp]:
  "disk (log e w) = disk w" "node_env (log e w) = node_env w"
  "env_read_fault (log e w) = env_read_fault w" "env_write_fault (log e w) = env_write_fault w"
  "env_writes (log e w) = env_writes w" "dbus_fault (log e w) = dbus_fault w"
  "list_units (log e w) = list_units w" "exec_result (log e w) = exec_result w"
  "commands (log e w) = commands w" "wakeups (log e w) = wakeups w"
  "logs (log e w) = logs w @ [e]"
  by (simp_all add: log_def)

lemma ReadEnvironment_log [simp]: "ReadEnvironment (log e w) = ReadEnvironment w"
  by (rule ReadEnvironment_logged) simp

lemma getServiceStatus_log [simp]: "getServiceStatus s (log e w) = getServiceStatus s w"
  by (rule getServiceStatus_logged) simp

lemma checkServices_first:
  assumes "getServiceStatus s w = Inr st" "st \<noteq> ''inactive''" "st \<noteq> ''failed''"
  shows "fst (checkServices (s # ss) w) = Inl (must_be_disabled s st)"
  using assms by (simp add: Let_def must_be_disabled_def)

lemma checkServices_second:
  assumes "\<not> (\<exists>st. getServiceStatus s1 w = Inr st \<and> st \<noteq> ''inactive'' \<and> st \<noteq> ''failed'')"
    and "getServiceStatus s2 w = Inr st" "st \<noteq> ''inactive''" "st \<noteq> ''failed''"
  shows "fst (checkServices [s1, s2] w) = Inl (must_be_disabled s2 st)"
proof (cases "getServiceStatus s1 w")
  case (Inl err)
  then show ?thesis
    using assms by (simp add: Let_def must_be_disabled_def)
next
  case (Inr st1)
  then have "st1 = ''inactive'' \<or> st1 = ''failed''" using assms(1) by auto
  then show ?thesis
    using assms Inr by (auto simp add: Let_def must_be_disabled_def)
qed

subsection \<open>The units must be stopped\<close>

text \<open>
  C1: on a node that is not in proxy mode, when the primary etcd unit or the upgrade unit
  reports a status other than \<open>inactive\<close> and \<open>failed\<close>, \<open>etcdUpgrade\<close> (upgrade or
  rollback) fails with the BadParameter error that names such a unit and its status, and
  nothing but the log has changed: no version record, no directory.
\<close>

theorem etcdUpgrade_unit_not_stopped:
  assumes "env_read_fault w = None"
    and "env_Get (node_env w) (EnvEtcdProxy k) \<noteq> EtcdProxyOn k"
    and "(\<exists>st. getServiceStatus (ETCDServiceName k) w = Inr st
              \<and> st \<noteq> ''inactive'' \<and> st \<noteq> ''failed'')
       \<or> (\<exists>st. getServiceStatus (ETCDUpgradeServiceName k) w = Inr st
              \<and> st \<noteq> ''inactive'' \<and> st \<noteq> ''failed'')"
  shows "\<exists>service status.
           (service = ETCDServiceName k \<or> service = ETCDUpgradeServiceName k)
         \<and> getServiceStatus service w = Inr status
         \<and> status \<noteq> ''inactive'' \<and> status \<noteq> ''failed''
         \<and> fst (etcdUpgrade k rollback w) = Inl (must_be_disabled service status)
         \<and> only_logged w (snd (etcdUpgrade k rollback w))"
proof -
  let ?w1 = "log (Info [S ''Checking etcd service status'']) (log (Info [S ''Updating etcd'']) w)"
  let ?units = "[ETCDServiceName k, ETCDUpgradeServiceName k]"
  have l1: "only_logged w ?w1"
    by (rule only_logged_trans [OF only_logged_log only_logged_log])
  have st: "\<And>s. getServiceStatus s ?w1 = getServiceStatus s w"
    by (rule getServiceStatus_logged [OF l1])
  have "\<exists>service status.
           (service = ETCDServiceName k \<or> service = ETCDUpgradeServiceName k)
         \<and> getServiceStatus service w = Inr status
         \<and> status \<noteq> ''inactive'' \<and> status \<noteq> ''failed''
         \<and> fst (checkServices ?units ?w1) = Inl (must_be_disabled service status)"
  proof (cases "\<exists>st. getServiceStatus (ETCDServiceName k) w = Inr st
              \<and> st \<noteq> ''inactive'' \<and> st \<noteq> ''failed''")
    case True
    then obtain st where a: "getServiceStatus (ETCDServiceName k) w = Inr st"
      "st \<noteq> ''inactive''" "st \<noteq> ''failed''" by blast
    from a have "fst (checkServices ?units ?w1) = Inl (must_be_disabled (ETCDServiceName k) st)"
      by (intro checkServices_first) (simp_all add: st)
    with a show ?thesis by blast
  next
    case False
    with assms(3) obtain st where a: "getServiceStatus (ETCDUpgradeServiceName k) w = Inr st"
      "st \<noteq> ''inactive''" "st \<noteq> ''failed''" by blast
    from False a
    have "fst (checkServices ?units ?w1) = Inl (must_be_disabled (ETCDUpgradeServiceName k) st)"
      by (intro checkServices_second) (simp_all add: st)
    with a show ?thesis by blast
  qed
  then obtain service status where r:
    "service = ETCDServiceName k \<or> service = ETCDUpgradeServiceName k"
    "getServiceStatus service w = Inr status"
    "status \<noteq> ''inactive''" "status \<noteq> ''failed''"
    "fst (checkServices ?units ?w1) = Inl (must_be_disabled service status)"
    by blast
  obtain r1 w2 where c: "checkServices ?units ?w1 = (r1, w2)"
    by (cases "checkServices ?units ?w1")
  with r(5) have r1: "r1 = Inl (must_be_disabled service status)" by simp
  have "only_logged ?w1 w2"
    using checkServices_logged [of ?w1 ?units] c by simp
  with l1 have l2: "only_logged w w2" by (rule only_logged_trans)
  have "etcdUpgrade k rollback w = (Inl (must_be_disabled service status), w2)"
    using assms(1,2) c r1
    by (simp add: etcdUpgrade_def Let_def del: checkServices.simps)
      (simp add: ReadEnvironment_def)
  with r l2 show ?thesis by auto
qed


theorem etcdUpgrade_unit_not_stopped_witness:
  "\<exists>service status.
       (service = ''etcd.service'' \<or> service = ''etcd-upgrade.service'')
     \<and> getServiceStatus service busy_world = Inr status
     \<and> status \<noteq> ''inactive'' \<and> status \<noteq> ''failed''
     \<and> fst (etcdUpgrade sample_config False busy_world) = Inl (must_be_disabled service status)
     \<and> only_logged busy_world (snd (etcdUpgrade sample_config False busy_world))"
proof -
  have 1: "env_read_fault busy_world = None"
    by (simp add: busy_world_def sample_world_def)
  have 2: "env_Get (node_env busy_world) (EnvEtcdProxy sample_config)
             \<noteq> EtcdProxyOn sample_config"
    by (simp add: busy_world_def sample_world_def sample_config_def env_Get_def)
  have "getServiceStatus (ETCDUpgradeServiceName sample_config) busy_world = Inr ''active''"
    by (simp add: busy_world_def sample_world_def sample_config_def getServiceStatus_def)
  then have 3: "(\<exists>st. getServiceStatus (ETCDServiceName sample_config) busy_world = Inr st
              \<and> st \<noteq> ''inactive'' \<and> st \<noteq> ''failed'')
       \<or> (\<exists>st. getServiceStatus (ETCDUpgradeServiceName sample_config) busy_world = Inr st
              \<and> st \<noteq> ''inactive'' \<and> st \<noteq> ''failed'')"
    by simp
  show ?thesis
    using etcdUpgrade_unit_not_stopped [OF 1 2 3, of False]
    by (simp add: sample_config_def)
qed

subsection \<open>The run of \<open>etcdUpgrade\<close>\<close>

lemma on_disk_eq: "f (disk w) = (r, d) \<Longrightarrow> on_disk f w = (r, w\<lparr>disk := d\<rparr>)"
  by (simp add: on_disk_def)

lemma unit_check_passes_logged:
  "only_logged w w' \<Longrightarrow> unit_check_passes s w' = unit_check_passes s w"
  by (simp add: unit_check_passes_def getServiceStatus_logged)

lemma checkServices_pass:
  "(\<And>s. s \<in> set ss \<Longrightarrow> unit_check_passes s w) \<Longrightarrow> fst (checkServices ss w) = Inr ()"
proof (induction ss arbitrary: w)
  case Nil
  show ?case by simp
next
  case (Cons s ss)
  have p: "unit_check_passes s w" by (rule Cons.prems) simp
  have rest: "\<And>e t. t \<in> set ss \<Longrightarrow> unit_check_passes t (log e w)"
    using Cons.prems by (simp add: unit_check_passes_logged [OF only_logged_log])
  show ?case
  proof (cases "getServiceStatus s w")
    case (Inl err)
    then show ?thesis using Cons.IH rest by simp
  next
    case (Inr status)
    with p have "status = ''inactive'' \<or> status = ''failed''"
      by (simp add: unit_check_passes_def)
    then show ?thesis using Inr Cons.IH rest by (auto simp: Let_def)
  qed
qed

lemma systemctl_result:
  "systemctl operation service w =
     (if snd (exec_result w [''/bin/systemctl'', ''--no-block'', operation, service])
      then Inl (CommandFailed ''failed to %v %v: %v''
                 [operation, service,
                  fst (exec_result w [''/bin/systemctl'', ''--no-block'', operation, service])])
      else Inr (),
      log (Infof ''%v %v: %v''
             [S operation, S service,
              S (fst (exec_result w [''/bin/systemctl'', ''--no-block'', operation, service]))])
        (w\<lparr>commands := commands w @ [[''/bin/systemctl'', ''--no-block'', operation, service]]\<rparr>))"
  by (cases "exec_result w [''/bin/systemctl'', ''--no-block'', operation, service]")
     (simp add: systemctl_def exec_Command_def Let_def)


lemma tryResetService_disk: "disk (tryResetService service w) = disk w"
  by (simp add: tryResetService_def systemctl_result)


lemma resetAPIServer_disk: "disk (snd (resetAPIServer k w)) = disk w"
  by (simp add: resetAPIServer_def Let_def tryResetService_disk split: sum.split)


text \<open>The run of etcdUpgrade on a node that is not a proxy and whose units pass the check.\<close>

lemma etcdUpgrade_run:
  assumes env: "env_read_fault w = None"
      "env_Get (node_env w) (EnvEtcdProxy k) \<noteq> EtcdProxyOn k"
    and units: "unit_check_passes (ETCDServiceName k) w"
      "unit_check_passes (ETCDUpgradeServiceName k) w"
    and desired: "readEtcdVersion k (DefaultPlanetReleaseFile k) (disk w) = Inr (d, x)"
    and current: "currentEtcdVersion k (disk w) = Inr (c, b)"
  shows "\<exists>w3. only_logged w w3 \<and>
           etcdUpgrade k rollback w =
             (case on_disk (switchVersion k rollback d c b) w3 of
                (Inl err, w4) \<Rightarrow> (Inl err, w4)
              | (Inr u, w4) \<Rightarrow> resetAPIServer k w4)"
proof -
  let ?w0 = "log (Info [S ''Checking etcd service status'']) (log (Info [S ''Updating etcd'']) w)"
  let ?units = "[ETCDServiceName k, ETCDUpgradeServiceName k]"
  have l0: "only_logged w ?w0"
    by (rule only_logged_trans [OF only_logged_log only_logged_log])
  obtain r1 w1 where c: "checkServices ?units ?w0 = (r1, w1)"
    by (cases "checkServices ?units ?w0")
  have "fst (checkServices ?units ?w0) = Inr ()"
    using units by (intro checkServices_pass) (auto simp: unit_check_passes_logged [OF l0])
  with c have r1: "r1 = Inr ()" by simp
  have "only_logged ?w0 w1" using checkServices_logged [of ?w0 ?units] c by simp
  with l0 have l1: "only_logged w w1" by (rule only_logged_trans)
  let ?w2 = "log (Info [S ''Desired etcd version: '', S d]) w1"
  let ?w3 = "log (Info [S ''Backup etcd version: '', S b])
               (log (Info [S ''Current etcd version: '', S c]) ?w2)"
  have "only_logged w1 ?w3"
    by (rule only_logged_trans [OF only_logged_log
          only_logged_trans [OF only_logged_log only_logged_log]])
  with l1 have l3: "only_logged w ?w3" by (rule only_logged_trans)
  have d1: "disk w1 = disk w" by (rule only_logged_fields [OF l1])
  have re: "ReadEnvironment w = Inr (node_env w)"
    using env(1) by (simp add: ReadEnvironment_def)
  have "etcdUpgrade k rollback w =
             (case on_disk (switchVersion k rollback d c b) ?w3 of
                (Inl err, w4) \<Rightarrow> (Inl err, w4)
              | (Inr u, w4) \<Rightarrow> resetAPIServer k w4)"
    using env(2) re c r1 desired current
    by (simp add: etcdUpgrade_def Let_def d1 del: checkServices.simps)
  with l3 show ?thesis by blast
qed


lemma resetAPIServer_ok:
  "getServiceStatus (APIServerServiceName k) w = Inr status \<Longrightarrow> fst (resetAPIServer k w) = Inr ()"
  by (simp add: resetAPIServer_def Let_def)

lemma switchVersion_rollback_no_backup: "switchVersion k True d c [] dk = (Inr (), dk)"
  by (simp add: switchVersion_def)

subsection \<open>Rollback without a backup version\<close>

lemma etcdUpgrade_disk:
  "disk (snd (etcdUpgrade k rollback w)) = disk w
   \<or> (\<exists>d x c b. readEtcdVersion k (DefaultPlanetReleaseFile k) (disk w) = Inr (d, x)
         \<and> currentEtcdVersion k (disk w) = Inr (c, b)
         \<and> disk (snd (etcdUpgrade k rollback w)) = snd (switchVersion k rollback d c b (disk w)))"
proof -
  let ?w0 = "log (Info [S ''Checking etcd service status'']) (log (Info [S ''Updating etcd'']) w)"
  let ?units = "[ETCDServiceName k, ETCDUpgradeServiceName k]"
  obtain r1 w1 where c: "checkServices ?units ?w0 = (r1, w1)"
    by (cases "checkServices ?units ?w0")
  have "only_logged ?w0 w1" using checkServices_logged [of ?w0 ?units] c by simp
  then have d1: "disk w1 = disk w" by (simp add: only_logged_fields)
  show ?thesis
  proof (cases "ReadEnvironment w")
    case (Inl err)
    then show ?thesis by (simp add: etcdUpgrade_def Let_def del: checkServices.simps)
  next
    case env: (Inr env)
    show ?thesis
    proof (cases "env_Get env (EnvEtcdProxy k) = EtcdProxyOn k")
      case True
      with env show ?thesis by (simp add: etcdUpgrade_def Let_def del: checkServices.simps)
    next
      case np: False
      show ?thesis
      proof (cases r1)
        case (Inl err)
        with env np c d1 show ?thesis
          by (simp add: etcdUpgrade_def Let_def del: checkServices.simps)
      next
        case r1: (Inr u)
        show ?thesis
        proof (cases "readEtcdVersion k (DefaultPlanetReleaseFile k) (disk w)")
          case (Inl err)
          with env np c d1 r1 show ?thesis
            by (simp add: etcdUpgrade_def Let_def del: checkServices.simps)
        next
          case (Inr dx)
          obtain d x where dx: "dx = (d, x)" by (cases dx)
          note rel = Inr [unfolded dx]
          show ?thesis
          proof (cases "currentEtcdVersion k (disk w)")
            case (Inl err)
            with env np c d1 r1 rel show ?thesis
              by (simp add: etcdUpgrade_def Let_def del: checkServices.simps)
          next
            case (Inr cb)
            obtain c' b where cb: "cb = (c', b)" by (cases cb)
            note cur = Inr [unfolded cb]
            obtain r dk where sw: "switchVersion k rollback d c' b (disk w) = (r, dk)"
              by (cases "switchVersion k rollback d c' b (disk w)")
            have "disk (snd (etcdUpgrade k rollback w)) = dk"
              using env np c d1 r1 rel cur sw
              by (cases r)
                 (simp_all add: etcdUpgrade_def Let_def on_disk_def resetAPIServer_disk
                    del: checkServices.simps)
            with rel cur sw show ?thesis by auto
          qed
        qed
      qed
    qed
  qed
qed

text \<open>
  C10, as it holds: \<open>etcdUpgrade\<close> with \<open>rollback = true\<close> on a node whose version record
  has an empty backup version leaves the disk as it was, whatever it returns: the version
  record is not written and no directory is deleted.  It returns success when the
  environment can be read, the node is not a proxy, both units pass the check, the
  release file can be read and the status of the API server can be queried.
\<close>

theorem etcdUpgrade_rollback_without_backup:
  assumes "currentEtcdVersion k (disk w) = Inr (c, [])"
  shows "disk (snd (etcdUpgrade k True w)) = disk w
       \<and> (env_read_fault w = None
          \<and> env_Get (node_env w) (EnvEtcdProxy k) \<noteq> EtcdProxyOn k
          \<and> unit_check_passes (ETCDServiceName k) w
          \<and> unit_check_passes (ETCDUpgradeServiceName k) w
          \<and> readEtcdVersion k (DefaultPlanetReleaseFile k) (disk w) = Inr (d, x)
          \<and> getServiceStatus (APIServerServiceName k) w = Inr status
          \<longrightarrow> fst (etcdUpgrade k True w) = Inr ())"
proof
  from etcdUpgrade_disk [of k True w] assms
  show "disk (snd (etcdUpgrade k True w)) = disk w"
    by (auto simp: switchVersion_rollback_no_backup)
next
  show "env_read_fault w = None
          \<and> env_Get (node_env w) (EnvEtcdProxy k) \<noteq> EtcdProxyOn k
          \<and> unit_check_passes (ETCDServiceName k) w
          \<and> unit_check_passes (ETCDUpgradeServiceName k) w
          \<and> readEtcdVersion k (DefaultPlanetReleaseFile k) (disk w) = Inr (d, x)
          \<and> getServiceStatus (APIServerServiceName k) w = Inr status
          \<longrightarrow> fst (etcdUpgrade k True w) = Inr ()"
  proof
    assume a: "env_read_fault w = None
          \<and> env_Get (node_env w) (EnvEtcdProxy k) \<noteq> EtcdProxyOn k
          \<and> unit_check_passes (ETCDServiceName k) w
          \<and> unit_check_passes (ETCDUpgradeServiceName k) w
          \<and> readEtcdVersion k (DefaultPlanetReleaseFile k) (disk w) = Inr (d, x)
          \<and> getServiceStatus (APIServerServiceName k) w = Inr status"
    then have h: "env_read_fault w = None"
        "env_Get (node_env w) (EnvEtcdProxy k) \<noteq> EtcdProxyOn k"
        "unit_check_passes (ETCDServiceName k) w"
        "unit_check_passes (ETCDUpgradeServiceName k) w"
        "readEtcdVersion k (DefaultPlanetReleaseFile k) (disk w) = Inr (d, x)"
      and st: "getServiceStatus (APIServerServiceName k) w = Inr status"
      by simp_all
    obtain w3 where l: "only_logged w w3"
      and run: "etcdUpgrade k True w =
               (case on_disk (switchVersion k True d c []) w3 of
                  (Inl err, w4) \<Rightarrow> (Inl err, w4)
                | (Inr u, w4) \<Rightarrow> resetAPIServer k w4)"
      using etcdUpgrade_run [OF h assms] by blast
    have "on_disk (switchVersion k True d c []) w3 = (Inr (), w3)"
      by (simp add: on_disk_def switchVersion_rollback_no_backup)
    with run have e: "etcdUpgrade k True w = resetAPIServer k w3" by simp
    have "getServiceStatus (APIServerServiceName k) w3 = Inr status"
      using st by (simp add: getServiceStatus_logged [OF l])
    then have "fst (resetAPIServer k w3) = Inr ()" by (rule resetAPIServer_ok)
    then show "fst (etcdUpgrade k True w) = Inr ()" by (simp add: e)
  qed
qed

subsection \<open>The restart of the API server is best effort\<close>


subsection \<open>Promotion of a node that is not a proxy\<close>

text \<open>
  C6: when the node environment shows proxy mode off, \<open>etcdPromote\<close> returns success
  after logging that there is nothing to do; the world differs in its log only: no
  environment is written, no command is run, the node environment and the disk are as
  they were.
\<close>

theorem etcdPromote_not_proxy:
  assumes "env_read_fault w = None"
    and "env_Get (node_env w) (EnvEtcdProxy k) = EtcdProxyOff k"
  shows "etcdPromote k setupEtcd name initialCluster initialClusterState w =
           (Inr (), log (Infof ''etcd is not running in proxy mode, nothing to do'' []) w)
       \<and> only_logged w (snd (etcdPromote k setupEtcd name initialCluster initialClusterState w))
       \<and> env_writes (snd (etcdPromote k setupEtcd name initialCluster initialClusterState w))
           = env_writes w
       \<and> commands (snd (etcdPromote k setupEtcd name initialCluster initialClusterState w))
           = commands w"
  using assms by (simp add: etcdPromote_def ReadEnvironment_def)

subsection \<open>The sample node\<close>

lemmas eval_defs =
  readEtcdVersion_def currentEtcdVersion_def os_Open_def parse_version_def scan_lines_def
  scan_line_def read_all_def dropCR_def MaxScanTokenSize_def LF_def CR_def

lemma sample_release:
  "readEtcdVersion sample_config (DefaultPlanetReleaseFile sample_config) (disk sample_world)
     = Inr (''3.3.12'', [])"
  by (simp add: sample_world_def sample_config_def eval_defs)

lemma sample_current:
  "currentEtcdVersion sample_config (disk sample_world) = Inr (''3.3.9'', [])"
  by (simp add: sample_world_def sample_config_def eval_defs)

lemma sample_not_proxy:
  "env_read_fault sample_world = None"
  "env_Get (node_env sample_world) (EnvEtcdProxy sample_config) \<noteq> EtcdProxyOn sample_config"
  "env_Get (node_env sample_world) (EnvEtcdProxy sample_config) = EtcdProxyOff sample_config"
  by (simp_all add: sample_world_def sample_config_def env_Get_def)

lemma sample_units:
  "unit_check_passes (ETCDServiceName sample_config) sample_world"
  "unit_check_passes (ETCDUpgradeServiceName sample_config) sample_world"
  "getServiceStatus (APIServerServiceName sample_config) sample_world = Inr ''inactive''"
  by (simp_all add: sample_world_def sample_config_def unit_check_passes_def getServiceStatus_def)




theorem etcdUpgrade_rollback_without_backup_witness:
  "disk (snd (etcdUpgrade sample_config True sample_world)) = disk sample_world
   \<and> fst (etcdUpgrade sample_config True sample_world) = Inr ()"
  using etcdUpgrade_rollback_without_backup
          [OF sample_current, of "''3.3.12''" "[]" "''inactive''"]
        sample_not_proxy(1,2) sample_units sample_release
  by blast



theorem etcdPromote_not_proxy_witness:
  "etcdPromote sample_config id ''node-1'' ''node-1=https://10.0.0.1:2380'' ''existing''
       sample_world =
     (Inr (), log (Infof ''etcd is not running in proxy mode, nothing to do'' []) sample_world)
   \<and> only_logged sample_world
       (snd (etcdPromote sample_config id ''node-1'' ''node-1=https://10.0.0.1:2380''
               ''existing'' sample_world))
   \<and> env_writes (snd (etcdPromote sample_config id ''node-1''
               ''node-1=https://10.0.0.1:2380'' ''existing'' sample_world))
       = env_writes sample_world
   \<and> commands (snd (etcdPromote sample_config id ''node-1''
               ''node-1=https://10.0.0.1:2380'' ''existing'' sample_world))
       = commands sample_world"
  by (rule etcdPromote_not_proxy [OF sample_not_proxy(1,3)])

subsection \<open>The process watcher\<close>

lemma wait_loop_success:
  "wait_loop evs = Some (Inr (), rest) \<Longrightarrow>
   \<exists>pre procs. evs = pre @ Tick (Inr procs) # rest \<and> ''etcd'' \<notin> set procs
              \<and> (\<forall>e \<in> set pre. etcd_running e)"
proof (induction evs rule: wait_loop.induct)
  case 1
  then show ?case by simp
next
  case (2 err rest')
  then show ?case by simp
next
  case (3 err rest')
  then show ?case by simp
next
  case (4 procs rest')
  show ?case
  proof (cases "''etcd'' \<in> set procs")
    case True
    with 4 obtain pre ps where "rest' = pre @ Tick (Inr ps) # rest" "''etcd'' \<notin> set ps"
      "\<forall>e \<in> set pre. etcd_running e" by auto
    with True have "Tick (Inr procs) # rest' = (Tick (Inr procs) # pre) @ Tick (Inr ps) # rest
        \<and> ''etcd'' \<notin> set ps \<and> (\<forall>e \<in> set (Tick (Inr procs) # pre). etcd_running e)"
      by (simp add: etcd_running_def)
    then show ?thesis by blast
  next
    case False
    with 4 have "rest' = rest" by simp
    with False have "Tick (Inr procs) # rest' = [] @ Tick (Inr procs) # rest
        \<and> ''etcd'' \<notin> set procs \<and> (\<forall>e \<in> set []. etcd_running e)" by simp
    then show ?thesis by blast
  qed
qed

lemma wait_loop_running:
  "\<forall>e \<in> set pre. etcd_running e \<Longrightarrow> wait_loop (pre @ rest) = wait_loop rest"
proof (induction pre)
  case Nil
  show ?case by simp
next
  case (Cons e pre)
  then obtain procs where "e = Tick (Inr procs)" "''etcd'' \<in> set procs"
    by (auto simp: etcd_running_def split: wakeup.splits sum.splits)
  with Cons show ?case by simp
qed

lemma wait_loop_ctx_done:
  "\<forall>e \<in> set pre. etcd_running e \<Longrightarrow>
   wait_loop (pre @ CtxDone err # rest) = Some (Inl (ContextError err), rest)"
  by (simp add: wait_loop_running)

lemma wait_loop_blocked:
  "\<forall>e \<in> set pre. etcd_running e \<Longrightarrow> wait_loop pre = None"
  using wait_loop_running [of pre "[]"] by simp

lemma waitForEtcdStopped_success:
  assumes "waitForEtcdStopped w = Some (Inr (), w')"
  shows "\<exists>pre procs. wakeups w = pre @ Tick (Inr procs) # wakeups w' \<and> ''etcd'' \<notin> set procs
              \<and> (\<forall>e \<in> set pre. etcd_running e)"
    and "w' = w\<lparr>wakeups := wakeups w'\<rparr>"
proof -
  from assms obtain rest where r: "wait_loop (wakeups w) = Some (Inr (), rest)"
    and w': "w' = w\<lparr>wakeups := rest\<rparr>"
    by (auto simp: waitForEtcdStopped_def split: option.splits)
  from w' have "wakeups w' = rest" by simp
  with wait_loop_success [OF r]
  show "\<exists>pre procs. wakeups w = pre @ Tick (Inr procs) # wakeups w' \<and> ''etcd'' \<notin> set procs
              \<and> (\<forall>e \<in> set pre. etcd_running e)" by simp
  from w' show "w' = w\<lparr>wakeups := wakeups w'\<rparr>" by simp
qed

lemma systemctl_fields:
  "wakeups (snd (systemctl operation service w)) = wakeups w"
  "commands (snd (systemctl operation service w))
     = commands w @ [systemctl_command operation service]"
  "disk (snd (systemctl operation service w)) = disk w"
  by (simp_all add: systemctl_result systemctl_command_def)

subsection \<open>Disabling a service waits for the process \<open>etcd\<close>\<close>

text \<open>
  C9: whatever the service, when \<open>disableService\<close> returns success it has masked and
  stopped that service and has then consumed wake-ups of the process watcher up to a scan
  of the process table that shows no process whose executable is exactly \<open>etcd\<close>; every
  scan before that one showed such a process.  What is waited for does not depend on the
  service.
\<close>

theorem disableService_waits_for_etcd:
  assumes "disableService service w = Some (Inr (), w')"
  shows "\<exists>pre procs.
           wakeups w = pre @ Tick (Inr procs) # wakeups w'
         \<and> ''etcd'' \<notin> set procs
         \<and> (\<forall>e \<in> set pre. etcd_running e)
         \<and> commands w' = commands w @ [systemctl_command ''mask'' service,
                                        systemctl_command ''stop'' service]"
proof -
  obtain r1 w1 where m: "systemctl ''mask'' service w = (r1, w1)"
    by (cases "systemctl ''mask'' service w")
  obtain r2 w2 where s: "systemctl ''stop'' service w1 = (r2, w2)"
    by (cases "systemctl ''stop'' service w1")
  from assms m s have wait: "waitForEtcdStopped w2 = Some (Inr (), w')"
    by (auto simp: disableService_def split: sum.splits)
  have "wakeups w1 = wakeups w" "commands w1 = commands w @ [systemctl_command ''mask'' service]"
    using systemctl_fields [of "''mask''" service w] m by simp_all
  moreover have "wakeups w2 = wakeups w1"
    "commands w2 = commands w1 @ [systemctl_command ''stop'' service]"
    using systemctl_fields [of "''stop''" service w1] s by simp_all
  moreover have "commands w' = commands w2"
    by (subst waitForEtcdStopped_success(2) [OF wait]) simp
  ultimately show ?thesis
    using waitForEtcdStopped_success(1) [OF wait] by simp
qed

theorem disableService_waits_for_etcd_witness:
  "\<exists>w'. disableService ''etcd-upgrade.service'' stopping_world = Some (Inr (), w')
      \<and> (\<exists>pre procs.
           wakeups stopping_world = pre @ Tick (Inr procs) # wakeups w'
         \<and> ''etcd'' \<notin> set procs
         \<and> (\<forall>e \<in> set pre. etcd_running e)
         \<and> commands w' = commands stopping_world
               @ [systemctl_command ''mask'' ''etcd-upgrade.service'',
                  systemctl_command ''stop'' ''etcd-upgrade.service''])"
proof -
  have "\<exists>w'. disableService ''etcd-upgrade.service'' stopping_world = Some (Inr (), w')"
    by (simp add: disableService_def systemctl_result waitForEtcdStopped_def
          stopping_world_def sample_world_def)
  then obtain w' where d: "disableService ''etcd-upgrade.service'' stopping_world = Some (Inr (), w')"
    by blast
  from disableService_waits_for_etcd [OF d] d show ?thesis by blast
qed

subsection \<open>Scanning a record\<close>

lemma raw_lines_line:
  "LF \<notin> set l \<Longrightarrow> raw_lines acc (l @ LF # rest) = (acc @ l) # raw_lines [] rest"
  by (induction l arbitrary: acc) auto

lemma scan_lines_line:
  "LF \<notin> set l \<Longrightarrow>
   scan_lines (l @ LF # rest) =
     (if length l < MaxScanTokenSize then dropCR l # scan_lines rest else [])"
  using raw_lines_line [of l "[]" rest] by (simp add: scan_lines_def)

lemma scan_lines_Nil: "scan_lines [] = []"
  by (simp add: scan_lines_def)

lemma scan_line_key:
  "CHR ''='' \<notin> set key \<Longrightarrow>
   scan_line k vs (key @ CHR ''='' # val) =
     (if key = EnvEtcdVersion k then (val, snd vs)
      else if key = EnvEtcdPrevVersion k then (fst vs, val)
      else vs)"
proof -
  assume a: "CHR ''='' \<notin> set key"
  then have "takeWhile (\<lambda>c. c \<noteq> CHR ''='') (key @ CHR ''='' # val) = key"
    by (simp add: takeWhile_append)
  moreover from a have "dropWhile (\<lambda>c. c \<noteq> CHR ''='') (key @ CHR ''='' # val) = CHR ''='' # val"
    by (simp add: dropWhile_append)
  ultimately show ?thesis by (simp add: scan_line_def Let_def)
qed

lemma dropCR_id: "l \<noteq> [] \<Longrightarrow> last l \<noteq> CR \<Longrightarrow> dropCR l = l"
  by (simp add: dropCR_def)

lemma dropCR_value: "v \<noteq> [] \<Longrightarrow> last v \<noteq> CR \<Longrightarrow> dropCR (key @ CHR ''='' # v) = key @ CHR ''='' # v"
  by (simp add: dropCR_def)

lemma dropCR_empty_value: "dropCR (key @ [CHR ''='']) = key @ [CHR ''='']"
  by (simp add: dropCR_def CR_def)

text \<open>The lines of a version record, as the scanning loop folds them.\<close>

lemma fold_backend_line:
  assumes "keys_ok k" and "backend = ''etcd2'' \<or> backend = ''etcd3''"
  shows "foldl (scan_line k) vs
           (scan_lines (EnvStorageBackend k @ CHR ''='' # backend @ [LF])) = vs"
proof -
  let ?l = "EnvStorageBackend k @ CHR ''='' # backend"
  have nolf: "LF \<notin> set ?l"
    using assms by (auto simp: keys_ok_def key_ok_def LF_def)
  have cr: "dropCR ?l = ?l"
    using assms(2) by (intro dropCR_value) (auto simp: CR_def)
  have key: "scan_line k vs ?l = vs"
    using assms(1) by (simp add: scan_line_key keys_ok_def key_ok_def)
  have "scan_lines (?l @ LF # []) = (if length ?l < MaxScanTokenSize then [?l] else [])"
    using scan_lines_line [OF nolf, of "[]"] by (simp add: cr scan_lines_Nil)
  then show ?thesis by (simp add: key)
qed

lemma parse_version_record:
  assumes k: "keys_ok k" and v: "valid_current k v" and b: "valid_backup k b"
  shows "parse_version k (version_record k v b) = Inr (v, b)"
proof -
  let ?V = "EnvEtcdVersion k @ CHR ''='' # v"
  let ?P = "EnvEtcdPrevVersion k @ CHR ''='' # b"
  define backend where "backend = (if v = AssumeEtcdVersion k then ''etcd2'' else ''etcd3'')"
  let ?B = "EnvStorageBackend k @ CHR ''='' # backend @ [LF]"
  from v have v': "v \<noteq> []" "LF \<notin> set v" "last v \<noteq> CR" "length ?V < MaxScanTokenSize"
    by (simp_all add: valid_current_def valid_value_def)
  from k have kv: "CHR ''='' \<notin> set (EnvEtcdVersion k)" "LF \<notin> set (EnvEtcdVersion k)"
    and kp: "CHR ''='' \<notin> set (EnvEtcdPrevVersion k)" "LF \<notin> set (EnvEtcdPrevVersion k)"
    and ne: "EnvEtcdPrevVersion k \<noteq> EnvEtcdVersion k"
    by (auto simp: keys_ok_def key_ok_def)
  have lfV: "LF \<notin> set ?V" using kv v' by (simp add: LF_def)
  have backend: "backend = ''etcd2'' \<or> backend = ''etcd3''" by (simp add: backend_def)
  have tail: "\<And>vs. foldl (scan_line k) vs (scan_lines ?B) = vs"
    by (rule fold_backend_line [OF k backend])
  have first: "\<And>rest. scan_lines (?V @ LF # rest) = ?V # scan_lines rest"
    using scan_lines_line [OF lfV] v' by (simp add: dropCR_value)
  have lineV: "scan_line k ([], []) ?V = (v, [])"
    using kv by (simp add: scan_line_key)
  have "foldl (scan_line k) ([], []) (scan_lines (version_record k v b)) = (v, b)"
  proof (cases "b = []")
    case True
    then have eq: "version_record k v b = ?V @ LF # ?B"
      by (simp add: version_record_def backend_def)
    show ?thesis unfolding eq first using True by (simp add: lineV tail)
  next
    case False
    with b have b': "LF \<notin> set b" "last b \<noteq> CR" "length ?P < MaxScanTokenSize"
      by (simp_all add: valid_backup_def valid_value_def)
    have lfP: "LF \<notin> set ?P" using kp b' by (simp add: LF_def)
    have second: "scan_lines (?P @ LF # ?B) = ?P # scan_lines ?B"
      using scan_lines_line [OF lfP, of ?B] b' False by (simp add: dropCR_value)
    have lineP: "scan_line k (v, []) ?P = (v, b)"
      using kp ne by (simp add: scan_line_key)
    from False have eq: "version_record k v b = ?V @ LF # ?P @ LF # ?B"
      by (simp add: version_record_def backend_def)
    show ?thesis unfolding eq first second by (simp add: lineV lineP tail)
  qed
  then show ?thesis using v' by (simp add: parse_version_def)
qed


subsection \<open>Writing the version record\<close>

lemma Fprint_file:
  "Fprint f s (d\<lparr>fs := AList.update f (File c) t\<rparr>) =
     (if io_fault d (SysWrite f s) then (Inl EIO, d\<lparr>fs := AList.update f (File c) t\<rparr>)
      else (Inr (), d\<lparr>fs := AList.update f (File (c @ s)) t\<rparr>))"
  by (simp add: Fprint_def read_all_def update_conv')

lemma os_Create_ok:
  assumes "os_Create p d = (Inr f, d')"
  shows "resolve 40 (fs d) p = Inr f" "map_of (fs d) f \<noteq> Some Dir"
    "d' = d\<lparr>fs := AList.update f (File []) (fs d)\<rparr>"
  using assms by (auto simp: os_Create_def split: if_splits sum.splits)

lemma writeEtcdEnvironment_ok:
  assumes "writeEtcdEnvironment k path v b d = (Inr (), d')"
  shows "\<exists>d1 f. os_MkdirAll (filepath_Dir path) d = (Inr (), d1)
           \<and> resolve 40 (fs d1) path = Inr f
           \<and> map_of (fs d1) f \<noteq> Some Dir
           \<and> d' = d1\<lparr>fs := AList.update f (File (version_record k v b)) (fs d1)\<rparr>"
proof -
  obtain r1 d1 where m: "os_MkdirAll (filepath_Dir path) d = (r1, d1)"
    by (cases "os_MkdirAll (filepath_Dir path) d")
  with assms have r1: "r1 = Inr ()"
    by (cases r1) (simp_all add: writeEtcdEnvironment_def)
  obtain r2 d2 where c: "os_Create path d1 = (r2, d2)"
    by (cases "os_Create path d1")
  with assms m r1 obtain f where r2: "r2 = Inr f"
    by (cases r2) (simp_all add: writeEtcdEnvironment_def)
  note cr = os_Create_ok [OF c [unfolded r2]]
  let ?s1 = "EnvEtcdVersion k @ ''='' @ v @ [LF]"
  let ?s2 = "if b \<noteq> [] then EnvEtcdPrevVersion k @ ''='' @ b @ [LF] else []"
  let ?s3 = "EnvStorageBackend k @ ''=''
               @ (if v = AssumeEtcdVersion k then ''etcd2'' else ''etcd3'') @ [LF]"
  have rest: "(case Fprint f ?s1 d2 of
        (Inl e, w3) \<Rightarrow> (Inl (SystemError e), w3)
      | (Inr u, w3) \<Rightarrow>
     (case (if b \<noteq> []
            then Fprint f (EnvEtcdPrevVersion k @ ''='' @ b @ [LF]) w3
            else (Inr (), w3)) of
        (Inl e, w4) \<Rightarrow> (Inl (SystemError e), w4)
      | (Inr u, w4) \<Rightarrow>
     (let backend = (if v = AssumeEtcdVersion k then ''etcd2'' else ''etcd3'')
      in case Fprint f (EnvStorageBackend k @ ''='' @ backend @ [LF]) w4 of
           (Inl e, w5) \<Rightarrow> (Inl (SystemError e), w5)
         | (Inr u, w5) \<Rightarrow> (Inr (), w5)))) = (Inr (), d')"
    using assms m r1 c r2 by (simp add: writeEtcdEnvironment_def)
  have "d' = d1\<lparr>fs := AList.update f (File (?s1 @ ?s2 @ ?s3)) (fs d1)\<rparr>"
    using rest unfolding cr(3)
    by (auto simp: Fprint_file Let_def split: if_splits)
  moreover have "?s1 @ ?s2 @ ?s3 = version_record k v b"
    by (simp add: version_record_def)
  ultimately show ?thesis using m r1 cr by simp
qed

lemma resolve_update_file:
  "resolve n t p = Inr f \<Longrightarrow> resolve n (AList.update f (File c) t) p = Inr f"
proof (induction n t p rule: resolve.induct)
  case (1 n t p)
  show ?case
  proof (cases "map_of t p")
    case None
    with 1 show ?thesis by (simp add: update_conv')
  next
    case (Some nd)
    show ?thesis
    proof (cases nd)
      case (File x)
      with Some 1 show ?thesis by (simp add: update_conv')
    next
      case Dir
      with Some 1 show ?thesis by (simp add: update_conv')
    next
      case (Symlink target)
      show ?thesis
      proof (cases n)
        case 0
        with Symlink Some 1 show ?thesis by simp
      next
        case (Suc m)
        with Symlink Some 1 have r: "resolve m t target = Inr f" by simp
        have "p \<noteq> f"
        proof
          assume "p = f"
          with Some Symlink have "map_of t f = Some (Symlink target)" by simp
          moreover have "\<And>n t p f. resolve n t p = Inr f \<Longrightarrow> \<forall>x. map_of t f \<noteq> Some (Symlink x)"
          proof -
            fix n t p f show "resolve n t p = Inr f \<Longrightarrow> \<forall>x. map_of t f \<noteq> Some (Symlink x)"
              by (induction n t p rule: resolve.induct)
                 (auto split: option.splits node.splits nat.splits)
          qed
          ultimately show False using r by blast
        qed
        with Symlink Some Suc 1 r show ?thesis by (simp add: update_conv')
      qed
    qed
  qed
qed


subsection \<open>\<open>os_MkdirAll\<close> only adds directories\<close>

lemma only_dirs_added_refl: "only_dirs_added d d"
  by (simp add: only_dirs_added_def)

lemma only_dirs_added_trans:
  "only_dirs_added d d1 \<Longrightarrow> only_dirs_added d1 d2 \<Longrightarrow> only_dirs_added d d2"
  unfolding only_dirs_added_def by (metis option.distinct(1))

lemma os_Mkdir_only_dirs_added: "only_dirs_added d (snd (os_Mkdir p d))"
  by (simp add: os_Mkdir_def only_dirs_added_def update_conv')

lemma os_MkdirAll_only_dirs_added: "only_dirs_added d (snd (os_MkdirAll p d))"
proof (induction p d rule: os_MkdirAll.induct)
  case (1 p w)
  show ?case
  proof (cases "os_Stat w p")
    case (Inr n)
    then have "snd (os_MkdirAll p w) = w"
      by (subst os_MkdirAll.simps) (simp del: os_MkdirAll.simps)
    then show ?thesis by (simp add: only_dirs_added_refl del: os_MkdirAll.simps)
  next
    case (Inl e)
    define up where
      "up = (case mkdir_parent p of None \<Rightarrow> (Inr (), w) | Some d \<Rightarrow> os_MkdirAll d w)"
    have g1: "only_dirs_added w (snd up)"
    proof (cases "mkdir_parent p")
      case None
      then show ?thesis by (simp add: up_def only_dirs_added_refl del: os_MkdirAll.simps)
    next
      case (Some d)
      with 1 [OF Inl Some] show ?thesis by (simp add: up_def del: os_MkdirAll.simps)
    qed
    have e: "os_MkdirAll p w =
        (case up of
           (Inl e, w1) \<Rightarrow> (Inl e, w1)
         | (Inr u, w1) \<Rightarrow>
             (case os_Mkdir p w1 of
                (Inr u, w2) \<Rightarrow> (Inr (), w2)
              | (Inl e, w2) \<Rightarrow>
                  (case os_Lstat w2 p of Inr Dir \<Rightarrow> (Inr (), w2) | _ \<Rightarrow> (Inl e, w2))))"
      unfolding up_def using Inl by (subst os_MkdirAll.simps) (simp del: os_MkdirAll.simps)
    obtain r1 w1 where u: "up = (r1, w1)" by (cases up)
    with g1 have g1': "only_dirs_added w w1" by simp
    show ?thesis
    proof (cases r1)
      case (Inl e1)
      with e u g1' show ?thesis by (simp del: os_MkdirAll.simps)
    next
      case (Inr u1)
      have "snd (os_MkdirAll p w) = snd (os_Mkdir p w1)"
        using e u Inr
        by (simp del: os_MkdirAll.simps split: prod.splits sum.splits node.splits)
      with only_dirs_added_trans [OF g1' os_Mkdir_only_dirs_added [of w1 p]]
      show ?thesis by (simp del: os_MkdirAll.simps)
    qed
  qed
qed

lemma os_MkdirAll_io_fault: "io_fault (snd (os_MkdirAll p d)) = io_fault d"
  using os_MkdirAll_only_dirs_added [of d p] by (simp add: only_dirs_added_def)

subsection \<open>Writing the version record and reading it back\<close>

lemma read_written:
  assumes k: "keys_ok k" and v: "valid_current k v" and b: "valid_backup k b"
    and w: "fst (writeEtcdEnvironment k path v b d) = Inr ()"
    and o: "\<not> io_fault d (SysOpen path)"
  shows "readEtcdVersion k path (snd (writeEtcdEnvironment k path v b d)) = Inr (v, b)"
proof -
  obtain d' where w': "writeEtcdEnvironment k path v b d = (Inr (), d')"
    using w by (cases "writeEtcdEnvironment k path v b d") simp
  from writeEtcdEnvironment_ok [OF w'] obtain d1 f
    where m: "os_MkdirAll (filepath_Dir path) d = (Inr (), d1)"
      and r: "resolve 40 (fs d1) path = Inr f"
      and d': "d' = d1\<lparr>fs := AList.update f (File (version_record k v b)) (fs d1)\<rparr>"
    by blast
  have "io_fault d1 = io_fault d"
    using os_MkdirAll_io_fault [of "filepath_Dir path" d] m by simp
  then have f: "\<not> io_fault d' (SysOpen path)" using o d' by simp
  have r': "resolve 40 (fs d') path = Inr f"
    using resolve_update_file [OF r] d' by simp
  have n: "map_of (fs d') f = Some (File (version_record k v b))"
    using d' by (simp add: update_conv')
  have "readEtcdVersion k path d' = parse_version k (version_record k v b)"
    using f r' n by (simp add: readEtcdVersion_def os_Open_def read_all_def)
  with parse_version_record [OF k v b] show ?thesis by (simp add: w')
qed

text \<open>
  C4, as it holds: for a version \<open>v\<close> that is not empty and a previous version \<open>b\<close> that
  may be empty, both without a line feed, not ending in a carriage return and short
  enough for the scanner, a successful \<open>writeEtcdEnvironment path v b\<close> followed by
  \<open>readEtcdVersion path\<close> returns \<open>v\<close> and \<open>b\<close>.  (The keys of the record are distinct
  and have no equals sign; opening the file does not fail.)
\<close>

theorem writeEtcdEnvironment_roundtrip:
  assumes "keys_ok k" and "valid_current k v" and "valid_backup k b"
    and "fst (writeEtcdEnvironment k path v b d) = Inr ()"
    and "\<not> io_fault d (SysOpen path)"
  shows "readEtcdVersion k path (snd (writeEtcdEnvironment k path v b d)) = Inr (v, b)"
  using assms by (rule read_written)

lemmas write_defs =
  writeEtcdEnvironment_def filepath_Dir_def path_Clean_def split_on_def Let_def os_Stat_def
  os_Create_def Fprint_def read_all_def

lemma sample_keys: "keys_ok sample_config"
  by (simp add: keys_ok_def key_ok_def sample_config_def LF_def)

lemma sample_valid:
  "valid_current sample_config ''3.3.12''" "valid_backup sample_config ''3.3.9''"
  by (simp_all add: valid_current_def valid_backup_def valid_value_def sample_config_def
        LF_def CR_def MaxScanTokenSize_def)

lemma sample_write:
  "fst (writeEtcdEnvironment sample_config ''/ext/etcd/etcd-version.txt'' ''3.3.12'' ''3.3.9''
          (disk sample_world)) = Inr ()"
  by (simp add: sample_world_def sample_config_def write_defs)

lemma sample_no_fault: "\<not> io_fault (disk sample_world) c"
  by (simp add: sample_world_def)

theorem writeEtcdEnvironment_roundtrip_witness:
  "readEtcdVersion sample_config ''/ext/etcd/etcd-version.txt''
     (snd (writeEtcdEnvironment sample_config ''/ext/etcd/etcd-version.txt'' ''3.3.12'' ''3.3.9''
             (disk sample_world)))
   = Inr (''3.3.12'', ''3.3.9'')"
  by (rule writeEtcdEnvironment_roundtrip
        [OF sample_keys sample_valid sample_write sample_no_fault])

text \<open>
  C4 as stated fails for the empty version: the record is written, and reading it back
  is refused by the check \<^verbatim>\<open>currentVersion == ""\<close> of \<open>readEtcdVersion\<close>.
\<close>

theorem writeEtcdEnvironment_empty_version:
  "fst (writeEtcdEnvironment sample_config ''/ext/etcd/etcd-version.txt'' [] []
          (disk sample_world)) = Inr ()
   \<and> readEtcdVersion sample_config ''/ext/etcd/etcd-version.txt''
       (snd (writeEtcdEnvironment sample_config ''/ext/etcd/etcd-version.txt'' [] []
               (disk sample_world)))
     = Inl (BadParameter ''unable to parse etcd version'' [])"
  by (simp add: sample_world_def sample_config_def write_defs eval_defs)

subsection \<open>Rollback while a unit is running\<close>

lemma busy_units:
  "getServiceStatus (ETCDServiceName sample_config) busy_world = Inr ''inactive''"
  "getServiceStatus (ETCDUpgradeServiceName sample_config) busy_world = Inr ''active''"
  by (simp_all add: busy_world_def sample_world_def sample_config_def getServiceStatus_def)

text \<open>
  C10 as stated fails on a node that is not a proxy and has an empty backup version when
  the upgrade unit is active: the rollback does not return success, it returns the error
  of the unit check.
\<close>

theorem etcdUpgrade_rollback_units_busy:
  "env_Get (node_env busy_world) (EnvEtcdProxy sample_config) \<noteq> EtcdProxyOn sample_config
   \<and> currentEtcdVersion sample_config (disk busy_world) = Inr (''3.3.9'', [])
   \<and> fst (etcdUpgrade sample_config True busy_world)
       = Inl (must_be_disabled ''etcd-upgrade.service'' ''active'')"
proof -
  have 1: "env_Get (node_env busy_world) (EnvEtcdProxy sample_config) \<noteq> EtcdProxyOn sample_config"
    by (simp add: busy_world_def sample_world_def sample_config_def env_Get_def)
  have d: "disk busy_world = disk sample_world" by (simp add: busy_world_def)
  have 2: "currentEtcdVersion sample_config (disk busy_world) = Inr (''3.3.9'', [])"
    using sample_current by (simp add: d)
  have e: "ReadEnvironment busy_world = Inr (node_env busy_world)"
    by (simp add: ReadEnvironment_def busy_world_def sample_world_def)
  let ?w1 = "log (Info [S ''Checking etcd service status''])
               (log (Info [S ''Updating etcd'']) busy_world)"
  let ?units = "[ETCDServiceName sample_config, ETCDUpgradeServiceName sample_config]"
  obtain r1 w2 where c: "checkServices ?units ?w1 = (r1, w2)"
    by (cases "checkServices ?units ?w1")
  have "fst (checkServices ?units ?w1)
        = Inl (must_be_disabled (ETCDUpgradeServiceName sample_config) ''active'')"
    by (rule checkServices_second) (simp_all add: busy_units)
  with c have r1: "r1 = Inl (must_be_disabled (ETCDUpgradeServiceName sample_config) ''active'')"
    by simp
  have "etcdUpgrade sample_config True busy_world
          = (Inl (must_be_disabled (ETCDUpgradeServiceName sample_config) ''active''), w2)"
    using 1 e c r1 by (simp add: etcdUpgrade_def Let_def del: checkServices.simps)
  then have 3: "fst (etcdUpgrade sample_config True busy_world)
       = Inl (must_be_disabled ''etcd-upgrade.service'' ''active'')"
    by (simp add: sample_config_def)
  from 1 2 3 show ?thesis by blast
qed

subsection \<open>The status query of the API server fails\<close>






subsection \<open>Files that a step leaves alone\<close>

lemma resolve_not_link: "not_link d p \<Longrightarrow> resolve n (fs d) p = Inr p"
  by (simp add: not_link_def split: option.splits node.splits)

lemma on_disk_unfold: "on_disk f w = (fst (f (disk w)), w\<lparr>disk := snd (f (disk w))\<rparr>)"
  by (simp add: on_disk_def split: prod.split)

lemma map_of_filter_key:
  "map_of (filter (\<lambda>(q, n). P q) t) x = (if P x then map_of t x else None)"
  by (induction t) auto

lemma os_Remove_other: "x \<noteq> p \<Longrightarrow> map_of (fs (snd (os_Remove p d))) x = map_of (fs d) x"
  by (simp add: os_Remove_def map_of_filter_key split: option.split)

lemma os_Symlink_other:
  "x \<noteq> newname \<Longrightarrow> map_of (fs (snd (os_Symlink oldname newname d))) x = map_of (fs d) x"
  by (simp add: os_Symlink_def update_conv')

lemma os_MkdirAll_present:
  "map_of (fs d) x = Some n \<Longrightarrow> map_of (fs (snd (os_MkdirAll p d))) x = Some n"
  using os_MkdirAll_only_dirs_added [of d p] unfolding only_dirs_added_def
  by (metis option.distinct(1))

lemma linkBinaries_other:
  "x \<notin> set paths \<Longrightarrow> map_of (fs (snd (linkBinaries v paths d))) x = map_of (fs d) x"
proof (induction paths arbitrary: d)
  case Nil
  show ?case by simp
next
  case (Cons p ps)
  then have x: "x \<noteq> p" "x \<notin> set ps" by simp_all
  obtain r d2 where s: "os_Symlink (p @ ''-'' @ v) p (snd (os_Remove p d)) = (r, d2)"
    by (cases "os_Symlink (p @ ''-'' @ v) p (snd (os_Remove p d))")
  have d2: "map_of (fs d2) x = map_of (fs d) x"
    using os_Symlink_other [OF x(1), of "p @ ''-'' @ v" "snd (os_Remove p d)"] s
      os_Remove_other [OF x(1), of d] by simp
  show ?case
  proof (cases r)
    case (Inl e)
    with s d2 show ?thesis by (simp add: Let_def)
  next
    case (Inr u)
    with s d2 Cons.IH [OF x(2), of d2] show ?thesis by (simp add: Let_def)
  qed
qed

subsection \<open>A new installation\<close>

lemma writeEtcdEnvironment_at:
  assumes w: "fst (writeEtcdEnvironment k p v b d) = Inr ()" and n: "not_link d p"
  shows "\<exists>d1. only_dirs_added d d1
           \<and> snd (writeEtcdEnvironment k p v b d)
               = d1\<lparr>fs := AList.update p (File (version_record k v b)) (fs d1)\<rparr>"
proof -
  obtain d' where w': "writeEtcdEnvironment k p v b d = (Inr (), d')"
    using w by (cases "writeEtcdEnvironment k p v b d") simp
  from writeEtcdEnvironment_ok [OF w'] obtain d1 f
    where m: "os_MkdirAll (filepath_Dir p) d = (Inr (), d1)"
      and r: "resolve 40 (fs d1) p = Inr f"
      and d': "d' = d1\<lparr>fs := AList.update f (File (version_record k v b)) (fs d1)\<rparr>"
    by blast
  have g: "only_dirs_added d d1"
    using os_MkdirAll_only_dirs_added [of d "filepath_Dir p"] m by simp
  then have "map_of (fs d1) p = map_of (fs d) p \<or> map_of (fs d1) p = Some Dir"
    by (auto simp: only_dirs_added_def)
  with n have "not_link d1 p" by (auto simp: not_link_def)
  then have "resolve 40 (fs d1) p = Inr p" by (rule resolve_not_link)
  with r have "f = p" by simp
  with g d' w' show ?thesis by auto
qed

lemma writeEtcdEnvironment_record:
  assumes "fst (writeEtcdEnvironment k p v b d) = Inr ()" and "not_link d p"
  shows "map_of (fs (snd (writeEtcdEnvironment k p v b d))) p = Some (File (version_record k v b))"
  using writeEtcdEnvironment_at [OF assms] by (auto simp: update_conv')

text \<open>
  C7, as it holds: when the release file gives the desired version, no version record
  exists (and opening its path does not fail otherwise), the data directory
  \<^verbatim>\<open>/ext/etcd/member\<close> does not exist and the record can be written, \<open>etcdInit\<close> settles on the
  desired version as the current version, logs it as such, and the version record holds
  that version and no previous version, whatever happens in the later steps.  (The
  record is none of the paths that \<open>etcdInit\<close> links; \<open>chownDir\<close> changes neither the tree
  nor the log.)
\<close>

theorem etcdInit_new_installation:
  assumes release: "readEtcdVersion k (DefaultPlanetReleaseFile k) (disk w) = Inr (d, x)"
    and no_record: "map_of (fs (disk w)) (DefaultEtcdCurrentVersionFile k) = None"
    and can_open: "\<not> io_fault (disk w) (SysOpen (DefaultEtcdCurrentVersionFile k))"
    and no_data: "os_Stat (disk w) ''/ext/etcd/member'' = Inl ENOENT"
    and written: "fst (writeEtcdEnvironment k (DefaultEtcdCurrentVersionFile k) d [] (disk w)) = Inr ()"
    and apart: "DefaultEtcdCurrentVersionFile k \<notin>
                  {''/usr/bin/etcd'', ''/usr/bin/etcdctl'', path_Join (DefaultEtcdStoreBase k) ''latest''}"
    and chown_disk: "\<And>dir w'. disk (snd (chownDir dir w')) = disk w'"
    and chown_logs: "\<And>dir w'. logs (snd (chownDir dir w')) = logs w'"
  shows "fst (initCurrentVersion k d (log (Info [S ''Desired etcd version: '', S d]) w)) = Inr d
       \<and> Info [S ''Current etcd version: '', S d] \<in> set (logs (snd (etcdInit k chownDir w)))
       \<and> map_of (fs (disk (snd (etcdInit k chownDir w)))) (DefaultEtcdCurrentVersionFile k)
           = Some (File (version_record k d []))"
proof -
  let ?V = "DefaultEtcdCurrentVersionFile k"
  let ?w0 = "log (Info [S ''Desired etcd version: '', S d]) w"
  let ?wl = "log (Info [S ''New installation detected, using etcd version: '', S d]) ?w0"
  let ?dk = "snd (writeEtcdEnvironment k ?V d [] (disk w))"
  let ?w1 = "?wl\<lparr>disk := ?dk\<rparr>"
  let ?entry = "Info [S ''Current etcd version: '', S d]"
  have nl: "not_link (disk w) ?V" using no_record by (simp add: not_link_def)
  have rd: "readEtcdVersion k ?V (disk w) = Inl NotFound"
    using no_record can_open
    by (simp add: readEtcdVersion_def os_Open_def resolve_not_link [OF nl])
  have init: "initCurrentVersion k d ?w0 = (Inr d, ?w1)"
    using rd no_data written
    by (simp add: initCurrentVersion_def Let_def on_disk_unfold split: sum.split)
  have rec: "map_of (fs ?dk) ?V = Some (File (version_record k d []))"
    using written nl by (rule writeEtcdEnvironment_record)
  let ?w1' = "log ?entry ?w1"
  have c: "\<And>dir w' r w''. chownDir dir w' = (r, w'') \<Longrightarrow> disk w'' = disk w' \<and> logs w'' = logs w'"
    using chown_disk chown_logs by (metis snd_conv)
  have fin: "?entry \<in> set (logs (snd (etcdInit k chownDir w)))
       \<and> map_of (fs (disk (snd (etcdInit k chownDir w)))) ?V = Some (File (version_record k d []))"
    using release init rec apart
    by (auto simp: etcdInit_def Let_def on_disk_unfold linkBinaries_other os_Remove_other
          os_Symlink_other os_MkdirAll_present
          simp del: linkBinaries.simps os_MkdirAll.simps
          split: sum.splits prod.splits if_splits dest!: c)
  from init fin show ?thesis by simp
qed


lemma fresh_facts:
  "readEtcdVersion sample_config (DefaultPlanetReleaseFile sample_config) (disk fresh_world)
     = Inr (''3.3.12'', [])"
  "map_of (fs (disk fresh_world)) (DefaultEtcdCurrentVersionFile sample_config) = None"
  "\<not> io_fault (disk fresh_world) (SysOpen (DefaultEtcdCurrentVersionFile sample_config))"
  "os_Stat (disk fresh_world) ''/ext/etcd/member'' = Inl ENOENT"
  "fst (writeEtcdEnvironment sample_config (DefaultEtcdCurrentVersionFile sample_config)
          ''3.3.12'' [] (disk fresh_world)) = Inr ()"
  "DefaultEtcdCurrentVersionFile sample_config \<notin>
     {''/usr/bin/etcd'', ''/usr/bin/etcdctl'',
      path_Join (DefaultEtcdStoreBase sample_config) ''latest''}"
  by (simp_all add: fresh_world_def sample_world_def sample_config_def eval_defs write_defs
        path_Join_def)

theorem etcdInit_new_installation_witness:
  "fst (initCurrentVersion sample_config ''3.3.12''
          (log (Info [S ''Desired etcd version: '', S ''3.3.12'']) fresh_world)) = Inr ''3.3.12''
   \<and> Info [S ''Current etcd version: '', S ''3.3.12'']
       \<in> set (logs (snd (etcdInit sample_config chown_nothing fresh_world)))
   \<and> map_of (fs (disk (snd (etcdInit sample_config chown_nothing fresh_world))))
         ''/ext/etcd/etcd-version.txt''
       = Some (File (''PLANET_ETCD_VERSION=3.3.12'' @ [LF] @ ''KUBE_STORAGE_BACKEND=etcd3'' @ [LF]))"
proof -
  have v: "DefaultEtcdCurrentVersionFile sample_config = ''/ext/etcd/etcd-version.txt''"
    "version_record sample_config ''3.3.12'' []
       = ''PLANET_ETCD_VERSION=3.3.12'' @ [LF] @ ''KUBE_STORAGE_BACKEND=etcd3'' @ [LF]"
    by (simp_all add: sample_config_def version_record_def)
  have "\<And>dir w'. disk (snd (chown_nothing dir w')) = disk w'"
    and "\<And>dir w'. logs (snd (chown_nothing dir w')) = logs w'"
    by (simp_all add: chown_nothing_def)
  from etcdInit_new_installation [OF fresh_facts this]
  show ?thesis by (simp only: v)
qed

text \<open>
  C7 as stated fails on a new installation whose version record cannot be created:
  \<open>etcdInit\<close> returns the error and no record is written.
\<close>

theorem etcdInit_record_not_written:
  "map_of (fs (disk unwritable_world)) ''/ext/etcd/etcd-version.txt'' = None
   \<and> os_Stat (disk unwritable_world) ''/ext/etcd/member'' = Inl ENOENT
   \<and> readEtcdVersion sample_config ''/etc/planet-release'' (disk unwritable_world)
       = Inr (''3.3.12'', [])
   \<and> fst (etcdInit sample_config chown_nothing unwritable_world) = Inl (SystemError EIO)
   \<and> disk (snd (etcdInit sample_config chown_nothing unwritable_world)) = disk unwritable_world"
  by (simp add: unwritable_world_def fresh_world_def sample_world_def sample_config_def
        etcdInit_def initCurrentVersion_def on_disk_def eval_defs write_defs log_def)

end
